theory Spec2Isabelle
  imports Complex_Main
begin

section \<open>Numbers\<close>

text \<open>
  The notebook computes with NumPy double-precision numbers.  They are idealised here:
  a finite value is an exact real (no rounding, no overflow, no signed zero), and the
  three special values are kept, because the program can produce them: dividing zero by
  zero gives \<open>NaN\<close> (NumPy warns and goes on, it does not raise), dividing a nonzero
  number by zero gives an infinity, and every comparison with \<open>NaN\<close> is false.
  The rounding of the fusion's arithmetic, on which the size of the returned standard
  deviation depends, is modelled in the section on double-precision arithmetic.
\<close>

datatype fl = Fin real | PInf | NInf | NaN

fun fl_neg :: "fl \<Rightarrow> fl" where
  "fl_neg (Fin a) = Fin (- a)"
| "fl_neg PInf = NInf"
| "fl_neg NInf = PInf"
| "fl_neg NaN = NaN"

fun fl_add :: "fl \<Rightarrow> fl \<Rightarrow> fl" where
  "fl_add (Fin a) (Fin b) = Fin (a + b)"
| "fl_add NaN y = NaN"
| "fl_add x NaN = NaN"
| "fl_add PInf NInf = NaN"
| "fl_add NInf PInf = NaN"
| "fl_add PInf y = PInf"
| "fl_add x PInf = PInf"
| "fl_add NInf y = NInf"
| "fl_add x NInf = NInf"

definition fl_sub :: "fl \<Rightarrow> fl \<Rightarrow> fl" where
  "fl_sub x y = fl_add x (fl_neg y)"

fun fl_mul :: "fl \<Rightarrow> fl \<Rightarrow> fl" where
  "fl_mul (Fin a) (Fin b) = Fin (a * b)"
| "fl_mul NaN y = NaN"
| "fl_mul x NaN = NaN"
| "fl_mul (Fin a) PInf = (if a = 0 then NaN else if 0 < a then PInf else NInf)"
| "fl_mul (Fin a) NInf = (if a = 0 then NaN else if 0 < a then NInf else PInf)"
| "fl_mul PInf (Fin b) = (if b = 0 then NaN else if 0 < b then PInf else NInf)"
| "fl_mul NInf (Fin b) = (if b = 0 then NaN else if 0 < b then NInf else PInf)"
| "fl_mul PInf PInf = PInf"
| "fl_mul PInf NInf = NInf"
| "fl_mul NInf PInf = NInf"
| "fl_mul NInf NInf = PInf"

text \<open>\<^verbatim>\<open>x**2\<close>\<close>

definition fl_sq :: "fl \<Rightarrow> fl" where
  "fl_sq x = fl_mul x x"

fun fl_div :: "fl \<Rightarrow> fl \<Rightarrow> fl" where
  "fl_div (Fin a) (Fin b) =
     (if b \<noteq> 0 then Fin (a / b)
      else if a = 0 then NaN
      else if 0 < a then PInf else NInf)"
| "fl_div NaN y = NaN"
| "fl_div x NaN = NaN"
| "fl_div (Fin a) PInf = Fin 0"
| "fl_div (Fin a) NInf = Fin 0"
| "fl_div PInf (Fin b) = (if 0 \<le> b then PInf else NInf)"
| "fl_div NInf (Fin b) = (if 0 \<le> b then NInf else PInf)"
| "fl_div PInf PInf = NaN"
| "fl_div PInf NInf = NaN"
| "fl_div NInf PInf = NaN"
| "fl_div NInf NInf = NaN"

text \<open>\<^verbatim>\<open>np.sqrt\<close>: \<open>NaN\<close> (and a warning) on a negative number.\<close>

fun fl_sqrt :: "fl \<Rightarrow> fl" where
  "fl_sqrt (Fin a) = (if 0 \<le> a then Fin (sqrt a) else NaN)"
| "fl_sqrt PInf = PInf"
| "fl_sqrt NInf = NaN"
| "fl_sqrt NaN = NaN"

text \<open>The comparison \<^verbatim>\<open>x < y\<close>.\<close>

fun fl_lt :: "fl \<Rightarrow> fl \<Rightarrow> bool" where
  "fl_lt (Fin a) (Fin b) = (a < b)"
| "fl_lt NaN y = False"
| "fl_lt x NaN = False"
| "fl_lt PInf y = False"
| "fl_lt x NInf = False"
| "fl_lt (Fin a) PInf = True"
| "fl_lt NInf (Fin b) = True"
| "fl_lt NInf PInf = True"

text \<open>
  \<^verbatim>\<open>np.clip(x, lo, hi)\<close> with finite bounds is
  \<^verbatim>\<open>minimum(maximum(x, lo), hi)\<close>; a \<open>NaN\<close> stays a \<open>NaN\<close>.
\<close>

fun fl_clip :: "fl \<Rightarrow> real \<Rightarrow> real \<Rightarrow> fl" where
  "fl_clip (Fin a) lo hi = Fin (min (max a lo) hi)"
| "fl_clip PInf lo hi = Fin hi"
| "fl_clip NInf lo hi = Fin (min lo hi)"
| "fl_clip NaN lo hi = NaN"

text \<open>A two-element array, and the element-wise operations the program uses on it.\<close>

type_synonym point = "fl \<times> fl"

definition vec_add :: "point \<Rightarrow> point \<Rightarrow> point" where
  "vec_add p q = (fl_add (fst p) (fst q), fl_add (snd p) (snd q))"

definition vec_scale :: "fl \<Rightarrow> point \<Rightarrow> point" where
  "vec_scale w p = (fl_mul w (fst p), fl_mul w (snd p))"

definition vec_clip :: "point \<Rightarrow> real \<Rightarrow> real \<Rightarrow> point" where
  "vec_clip p lo hi = (fl_clip (fst p) lo hi, fl_clip (snd p) lo hi)"

subsection \<open>Random draws\<close>

text \<open>
  \<^verbatim>\<open>np.random.normal(loc, scale)\<close> raises \<^verbatim>\<open>ValueError\<close> when the scale is negative and
  otherwise returns \<^verbatim>\<open>loc + scale * z\<close> for a standard normal draw \<open>z\<close>.  The draw is an
  explicit argument of the model, so a run is a function of its draws.  With a shape of
  two the same scale is used for two draws.
\<close>

datatype error = ValueError

definition normal :: "fl \<Rightarrow> fl \<Rightarrow> fl \<Rightarrow> error + fl" where
  "normal loc scale z =
     (if fl_lt scale (Fin 0) then Inl ValueError else Inr (fl_add loc (fl_mul scale z)))"

definition normal2 :: "fl \<Rightarrow> fl \<Rightarrow> point \<Rightarrow> error + point" where
  "normal2 loc scale z =
     (if fl_lt scale (Fin 0) then Inl ValueError
      else Inr (fl_add loc (fl_mul scale (fst z)), fl_add loc (fl_mul scale (snd z))))"

section \<open>Geometry\<close>

text \<open>
  Modelled from the spec: \<^verbatim>\<open>get_distance\<close> of the module \<^verbatim>\<open>gazetools\<close>, which the
  notebook imports and which is not among the sources.  The specification describes it as
  the standard Euclidean norm of \<open>a - b\<close>, without side effects.
\<close>

definition get_distance :: "point \<Rightarrow> point \<Rightarrow> fl" where
  "get_distance p q =
     fl_sqrt (fl_add (fl_sq (fl_sub (fst p) (fst q))) (fl_sq (fl_sub (snd p) (snd q))))"

section \<open>The theory of gaze-based interaction\<close>

text \<open>
  The parameters of \<^verbatim>\<open>GazeTheory.__init__\<close> (the attribute is spelt
  \<^verbatim>\<open>oculamotor_noise_weight\<close> in the source).  The dictionaries
  \<^verbatim>\<open>internal_state\<close> and \<^verbatim>\<open>external_state\<close> exist only once the reset methods have
  run; the functions that read them take them as arguments, so a call before the reset
  (an \<^verbatim>\<open>AttributeError\<close> in Python) has no counterpart here.
\<close>

record GazeTheory =
  oculamotor_noise_weight :: fl
  stimulus_noise_weight :: fl
  step_cost :: fl

definition GazeTheory_init :: GazeTheory where
  "GazeTheory_init =
     \<lparr>oculamotor_noise_weight = Fin 0.01, stimulus_noise_weight = Fin 0.09,
      step_cost = Fin (- 1)\<rparr>"

record internal_state =
  i_fixation :: point
  i_target :: point
  i_target_std :: fl
  i_width :: fl
  i_action :: point

record external_state =
  e_fixation :: point
  e_target :: point
  e_width :: fl

type_synonym obs = "fl \<times> fl \<times> fl"

definition get_obs :: "internal_state \<Rightarrow> obs" where
  "get_obs s = (fst (i_target s), snd (i_target s), i_target_std s)"

definition reset_internal_env :: "external_state \<Rightarrow> internal_state \<times> obs" where
  "reset_internal_env external_state =
     (let s = \<lparr>i_fixation = (Fin (- 1), Fin (- 1)),
                i_target = (Fin 0, Fin 0),
                i_target_std = Fin 0.1,
                i_width = e_width external_state,
                i_action = (Fin (- 1), Fin (- 1))\<rparr>
      in (s, get_obs s))"

definition update_state_with_action :: "internal_state \<Rightarrow> point \<Rightarrow> internal_state" where
  "update_state_with_action s a = s\<lparr>i_action := a\<rparr>"

definition get_response :: "GazeTheory \<Rightarrow> internal_state \<Rightarrow> point \<Rightarrow> error + point" where
  "get_response th s z =
     (let move_distance = get_distance (i_fixation s) (i_action s) in
      case normal2 (Fin 0) (fl_mul (oculamotor_noise_weight th) move_distance) z of
        Inl e \<Rightarrow> Inl e
      | Inr ocularmotor_noise \<Rightarrow>
          (let response = vec_add (i_action s) ocularmotor_noise
           in Inr (vec_clip response (- 1) 1)))"

definition get_stimulus ::
  "GazeTheory \<Rightarrow> external_state \<Rightarrow> point \<Rightarrow> error + (point \<times> fl)" where
  "get_stimulus th external_state z =
     (let eccentricity = get_distance (e_target external_state) (e_fixation external_state);
          stm_std = fl_mul (stimulus_noise_weight th) eccentricity
      in case normal2 (Fin 0) stm_std z of
           Inl e \<Rightarrow> Inl e
         | Inr stimulus_noise \<Rightarrow> Inr (vec_add (e_target external_state) stimulus_noise, stm_std))"

text \<open>
  \<^verbatim>\<open>bayes_update\<close>.  Its two divisions have the denominator
  \<^verbatim>\<open>sigma1**2 + sigma2**2\<close>.  The belief's standard deviation is the Python number
  \<open>0.1\<close> before the first fusion and a result of \<^verbatim>\<open>np.sqrt\<close> afterwards, so a denominator
  that is zero is a NumPy number and the division follows NumPy: no
  \<^verbatim>\<open>ZeroDivisionError\<close> is raised.
\<close>

definition bayes_update :: "point \<Rightarrow> fl \<Rightarrow> point \<Rightarrow> fl \<Rightarrow> point \<times> fl" where
  "bayes_update stimulus stimulus_std belief belief_std =
     (let z1 = stimulus; sigma1 = stimulus_std;
          z2 = belief; sigma2 = belief_std;
          w1 = fl_div (fl_sq sigma2) (fl_add (fl_sq sigma1) (fl_sq sigma2));
          w2 = fl_div (fl_sq sigma1) (fl_add (fl_sq sigma1) (fl_sq sigma2));
          posterior = vec_add (vec_scale w1 z1) (vec_scale w2 z2);
          posterior_std =
            fl_sqrt (fl_div (fl_mul (fl_sq sigma1) (fl_sq sigma2))
                            (fl_add (fl_sq sigma1) (fl_sq sigma2)))
      in (posterior, posterior_std))"

definition update_state_with_stimulus ::
  "internal_state \<Rightarrow> point \<Rightarrow> fl \<Rightarrow> internal_state" where
  "update_state_with_stimulus s stimulus stimulus_std =
     (let (posterior, posterior_std) =
            bayes_update stimulus stimulus_std (i_target s) (i_target_std s)
      in s\<lparr>i_target := posterior, i_target_std := posterior_std\<rparr>)"

definition get_reward :: "internal_state \<Rightarrow> fl" where
  "get_reward s =
     (let distance = get_distance (i_fixation s) (i_target s) in
      if fl_lt distance (fl_div (i_width s) (Fin 2)) then Fin 0 else fl_neg distance)"

section \<open>The external task\<close>

record GazeTask =
  target_width :: fl
  target_loc_std :: fl

definition GazeTask_init :: GazeTask where
  "GazeTask_init = \<lparr>target_width = Fin 0.15, target_loc_std = Fin 0.3\<rparr>"

text \<open>The two draws of \<^verbatim>\<open>_get_new_target\<close> are the components of \<open>z\<close>.\<close>

definition reset_external_env :: "GazeTask \<Rightarrow> point \<Rightarrow> error + external_state" where
  "reset_external_env tx z =
     (case normal (Fin 0) (target_loc_std tx) (fst z) of
        Inl e \<Rightarrow> Inl e
      | Inr x \<Rightarrow>
          (case normal (Fin 0) (target_loc_std tx) (snd z) of
             Inl e \<Rightarrow> Inl e
           | Inr y \<Rightarrow>
               (let x_target = fl_clip x (- 1) 1;
                    y_target = fl_clip y (- 1) 1;
                    fx = (Fin (- 1), Fin (- 1));
                    tg = (x_target, y_target)
                in Inr \<lparr>e_fixation = fx, e_target = tg, e_width = target_width tx\<rparr>)))"

definition external_env :: "external_state \<Rightarrow> point \<Rightarrow> external_state \<times> bool" where
  "external_env ext a =
     (let ext' = ext\<lparr>e_fixation := a\<rparr>;
          distance = get_distance (e_fixation ext') (e_target ext');
          done = (if fl_lt distance (fl_div (e_width ext') (Fin 2)) then True else False)
      in (ext', done))"

section \<open>One cycle of the cognitive POMDP\<close>

text \<open>
  \<^verbatim>\<open>CognitivePOMDP.step\<close>.  The arguments \<open>zm\<close> and \<open>zs\<close> are the draws of the motor
  noise and of the stimulus noise.  The external state handed to \<^verbatim>\<open>_get_stimulus\<close> is
  the task's dictionary after \<^verbatim>\<open>external_env\<close> has written the response into it.
\<close>

definition step ::
  "GazeTheory \<Rightarrow> internal_state \<Rightarrow> external_state \<Rightarrow> point \<Rightarrow> point \<Rightarrow> point \<Rightarrow>
     error + (internal_state \<times> external_state \<times> obs \<times> fl \<times> bool)" where
  "step th s ext a zm zs =
     (let s1 = update_state_with_action s a in
      case get_response th s1 zm of
        Inl e \<Rightarrow> Inl e
      | Inr response \<Rightarrow>
          (let (external_state, done) = external_env ext response in
           case get_stimulus th external_state zs of
             Inl e \<Rightarrow> Inl e
           | Inr (stimulus, stimulus_std) \<Rightarrow>
               (let s2 = update_state_with_stimulus s1 stimulus stimulus_std;
                    ob = get_obs s2;
                    reward = get_reward s2
                in Inr (s2, external_state, ob, reward, done))))"

section \<open>The episode adapter\<close>

text \<open>
  \<^verbatim>\<open>GazeModel\<close> owns a theory, a task and the step cap; its mutable parts are the two
  dictionaries and the counter \<^verbatim>\<open>n_step\<close> (a Python integer, unbounded).
\<close>

record GazeModel =
  GT :: GazeTheory
  TX :: GazeTask
  max_steps :: int

definition GazeModel_init :: GazeModel where
  "GazeModel_init = \<lparr>GT = GazeTheory_init, TX = GazeTask_init, max_steps = 500\<rparr>"

record model_state =
  internal :: internal_state
  external :: external_state
  n_step :: int

record info =
  info_step :: int
  info_target_width :: fl
  info_target_x :: fl
  info_target_y :: fl
  info_fixate_x :: fl
  info_fixate_y :: fl

definition get_info :: "GazeModel \<Rightarrow> model_state \<Rightarrow> info" where
  "get_info m st =
     \<lparr>info_step = n_step st,
      info_target_width = target_width (TX m),
      info_target_x = fst (e_target (external st)),
      info_target_y = snd (e_target (external st)),
      info_fixate_x = fst (e_fixation (external st)),
      info_fixate_y = snd (e_fixation (external st))\<rparr>"

definition GazeModel_reset :: "GazeModel \<Rightarrow> point \<Rightarrow> error + (model_state \<times> obs)" where
  "GazeModel_reset m z =
     (case reset_external_env (TX m) z of
        Inl e \<Rightarrow> Inl e
      | Inr ext \<Rightarrow>
          (let (s, ob) = reset_internal_env ext
           in Inr (\<lparr>internal = s, external = ext, n_step = 0\<rparr>, ob)))"

definition GazeModel_step ::
  "GazeModel \<Rightarrow> model_state \<Rightarrow> point \<Rightarrow> point \<Rightarrow> point \<Rightarrow>
     error + (model_state \<times> obs \<times> fl \<times> bool \<times> info)" where
  "GazeModel_step m st a zm zs =
     (case step (GT m) (internal st) (external st) a zm zs of
        Inl e \<Rightarrow> Inl e
      | Inr (s', ext', ob, reward, done) \<Rightarrow>
          (let st' = \<lparr>internal = s', external = ext', n_step = n_step st + 1\<rparr>;
               done' = (if max_steps m < n_step st' then True else done)
           in Inr (st', ob, reward, done', get_info m st')))"

section \<open>Sequences of calls\<close>

text \<open>
  One call of \<^verbatim>\<open>step\<close> takes an action and the draws of its two noise sources.  A
  sequence of calls threads the states through and stops at the first error.
\<close>

type_synonym step_input = "point \<times> point \<times> point"

fun run_steps ::
  "GazeTheory \<Rightarrow> internal_state \<Rightarrow> external_state \<Rightarrow> step_input list \<Rightarrow>
     error + (internal_state \<times> external_state \<times> obs \<times> fl \<times> bool) list" where
  "run_steps th s ext [] = Inr []"
| "run_steps th s ext ((a, zm, zs) # ins) =
     (case step th s ext a zm zs of
        Inl e \<Rightarrow> Inl e
      | Inr (s', ext', ob, reward, done) \<Rightarrow>
          (case run_steps th s' ext' ins of
             Inl e \<Rightarrow> Inl e
           | Inr outs \<Rightarrow> Inr ((s', ext', ob, reward, done) # outs)))"

fun GazeModel_run ::
  "GazeModel \<Rightarrow> model_state \<Rightarrow> step_input list \<Rightarrow>
     error + (model_state \<times> obs \<times> fl \<times> bool \<times> info) list" where
  "GazeModel_run m st [] = Inr []"
| "GazeModel_run m st ((a, zm, zs) # ins) =
     (case GazeModel_step m st a zm zs of
        Inl e \<Rightarrow> Inl e
      | Inr (st', ob, reward, done, nfo) \<Rightarrow>
          (case GazeModel_run m st' ins of
             Inl e \<Rightarrow> Inl e
           | Inr outs \<Rightarrow> Inr ((st', ob, reward, done, nfo) # outs)))"

text \<open>The reward and the flag of one returned tuple.\<close>

definition reward_of :: "internal_state \<times> external_state \<times> obs \<times> fl \<times> bool \<Rightarrow> fl" where
  "reward_of out = fst (snd (snd (snd out)))"

definition done_of :: "model_state \<times> obs \<times> fl \<times> bool \<times> info \<Rightarrow> bool" where
  "done_of out = fst (snd (snd (snd out)))"

text \<open>
  The task's termination condition, read on an external state: the test that
  \<^verbatim>\<open>external_env\<close> makes after it has written the fixation.
\<close>

definition goal_achieved :: "external_state \<Rightarrow> bool" where
  "goal_achieved ext =
     fl_lt (get_distance (e_fixation ext) (e_target ext)) (fl_div (e_width ext) (Fin 2))"

section \<open>The fusion formula of the specification\<close>

text \<open>
  The specification's words for the fusion of two Gaussian estimates, on real numbers and
  for one coordinate: the weights \<open>w1 = prior_std\<^sup>2 / (stimulus_std\<^sup>2 + prior_std\<^sup>2)\<close> and
  \<open>w2 = stimulus_std\<^sup>2 / (stimulus_std\<^sup>2 + prior_std\<^sup>2)\<close>, the mean
  \<open>w1 * stimulus + w2 * prior\<close>, and the standard deviation.
\<close>

definition fuse_mean :: "real \<Rightarrow> real \<Rightarrow> real \<Rightarrow> real \<Rightarrow> real" where
  "fuse_mean z1 s1 z2 s2 =
     (s2\<^sup>2 / (s1\<^sup>2 + s2\<^sup>2)) * z1 + (s1\<^sup>2 / (s1\<^sup>2 + s2\<^sup>2)) * z2"

definition fuse_std :: "real \<Rightarrow> real \<Rightarrow> real" where
  "fuse_std s1 s2 = sqrt ((s1\<^sup>2 * s2\<^sup>2) / (s1\<^sup>2 + s2\<^sup>2))"

section \<open>Double-precision arithmetic\<close>

text \<open>
  On finite numbers the operations above are exact.  Where a property depends on how the
  results are rounded, the arithmetic of \<^verbatim>\<open>bayes_update\<close> is modelled as NumPy performs it
  on \<^verbatim>\<open>float64\<close> values: every operation returns the binary64 number nearest to its
  exact result, a tie going to the even significand (IEEE 754, round to nearest even).
  A binary64 number is zero or \<open>m * 2\<^sup>e\<close> with \<open>\<bar>m\<bar> < 2\<^sup>5\<^sup>3\<close> and \<open>- 1074 \<le> e \<le> 971\<close>;
  a result that rounds to \<open>2\<^sup>1\<^sup>0\<^sup>2\<^sup>4\<close> or more in magnitude is an infinity.  The sign of
  zero is not represented, and \<^verbatim>\<open>x**2\<close> is the rounded product \<open>x * x\<close>.
\<close>

text \<open>The integer nearest to \<open>r\<close>, the even one of the two at a tie.\<close>

definition round_half_even :: "real \<Rightarrow> int" where
  "round_half_even r =
     (let f = \<lfloor>r\<rfloor>; d = r - of_int f
      in if d < 1 / 2 then f
         else if 1 / 2 < d then f + 1
         else if even f then f else f + 1)"

text \<open>
  The exponent of the unit in the last place of \<open>x\<close>: 52 below the exponent of \<open>x\<close>,
  which is held at \<open>- 1022\<close> in the subnormal range.
\<close>

definition ulp_exponent :: "real \<Rightarrow> int" where
  "ulp_exponent x = max \<lfloor>log 2 \<bar>x\<bar>\<rfloor> (- 1022) - 52"

text \<open>The binary64 number nearest to a real number.\<close>

definition to_double :: "real \<Rightarrow> fl" where
  "to_double x =
     (if x = 0 then Fin 0
      else
        (let e = ulp_exponent x;
             r = of_int (round_half_even (x / 2 powi e)) * 2 powi e
         in if 2 ^ 1024 \<le> r then PInf
            else if r \<le> - (2 ^ 1024) then NInf
            else Fin r))"

fun fl_round :: "fl \<Rightarrow> fl" where
  "fl_round (Fin a) = to_double a"
| "fl_round PInf = PInf"
| "fl_round NInf = NInf"
| "fl_round NaN = NaN"

text \<open>The rounded operations \<^verbatim>\<open>+\<close>, \<^verbatim>\<open>*\<close>, \<^verbatim>\<open>/\<close>, \<^verbatim>\<open>np.sqrt\<close> and \<^verbatim>\<open>x**2\<close>.\<close>

definition d_add :: "fl \<Rightarrow> fl \<Rightarrow> fl" where
  "d_add x y = fl_round (fl_add x y)"

definition d_mul :: "fl \<Rightarrow> fl \<Rightarrow> fl" where
  "d_mul x y = fl_round (fl_mul x y)"

definition d_div :: "fl \<Rightarrow> fl \<Rightarrow> fl" where
  "d_div x y = fl_round (fl_div x y)"

definition d_sqrt :: "fl \<Rightarrow> fl" where
  "d_sqrt x = fl_round (fl_sqrt x)"

definition d_sq :: "fl \<Rightarrow> fl" where
  "d_sq x = d_mul x x"

definition d_vec_add :: "point \<Rightarrow> point \<Rightarrow> point" where
  "d_vec_add p q = (d_add (fst p) (fst q), d_add (snd p) (snd q))"

definition d_vec_scale :: "fl \<Rightarrow> point \<Rightarrow> point" where
  "d_vec_scale w p = (d_mul w (fst p), d_mul w (snd p))"

text \<open>
  \<^verbatim>\<open>bayes_update\<close> and \<^verbatim>\<open>_update_state_with_stimulus\<close>, statement by statement as above,
  with every operation rounded.
\<close>

definition bayes_update_double :: "point \<Rightarrow> fl \<Rightarrow> point \<Rightarrow> fl \<Rightarrow> point \<times> fl" where
  "bayes_update_double stimulus stimulus_std belief belief_std =
     (let z1 = stimulus; sigma1 = stimulus_std;
          z2 = belief; sigma2 = belief_std;
          w1 = d_div (d_sq sigma2) (d_add (d_sq sigma1) (d_sq sigma2));
          w2 = d_div (d_sq sigma1) (d_add (d_sq sigma1) (d_sq sigma2));
          posterior = d_vec_add (d_vec_scale w1 z1) (d_vec_scale w2 z2);
          posterior_std =
            d_sqrt (d_div (d_mul (d_sq sigma1) (d_sq sigma2))
                          (d_add (d_sq sigma1) (d_sq sigma2)))
      in (posterior, posterior_std))"

definition update_state_with_stimulus_double ::
  "internal_state \<Rightarrow> point \<Rightarrow> fl \<Rightarrow> internal_state" where
  "update_state_with_stimulus_double s stimulus stimulus_std =
     (let (posterior, posterior_std) =
            bayes_update_double stimulus stimulus_std (i_target s) (i_target_std s)
      in s\<lparr>i_target := posterior, i_target_std := posterior_std\<rparr>)"

text \<open>
  The binary64 numbers that the literals \<^verbatim>\<open>0.1\<close> and \<^verbatim>\<open>7e-12\<close> denote, and a belief whose
  uncertainty is the second of them.
\<close>

definition double_0_1 :: real where
  "double_0_1 = 7205759403792794 / 2 ^ 56"

definition double_7em12 :: real where
  "double_7em12 = 8665580274997662 / 2 ^ 90"

definition sharp_belief :: internal_state where
  "sharp_belief = \<lparr>i_fixation = (Fin 0, Fin 0), i_target = (Fin 0, Fin 0),
                    i_target_std = Fin double_7em12, i_width = Fin (3 / 20),
                    i_action = (Fin 0, Fin 0)\<rparr>"

section \<open>Example inputs\<close>

text \<open>
  A theory whose two noise weights are set to zero, the external state that
  \<^verbatim>\<open>reset_external_env\<close> builds when the target lands on \<open>(-0.4, -0.2)\<close>, and a call
  that aims at that target.
\<close>

definition zero_noise_theory :: GazeTheory where
  "zero_noise_theory =
     GazeTheory_init\<lparr>oculamotor_noise_weight := Fin 0, stimulus_noise_weight := Fin 0\<rparr>"

definition ext_example :: external_state where
  "ext_example =
     \<lparr>e_fixation = (Fin (- 1), Fin (- 1)), e_target = (Fin (- 0.4), Fin (- 0.2)),
      e_width = Fin 0.15\<rparr>"

definition aim_at_target :: step_input where
  "aim_at_target = ((Fin (- 0.4), Fin (- 0.2)), (Fin 0, Fin 0), (Fin 0, Fin 0))"

section \<open>Basic facts\<close>

text \<open>The example state is the one a reset builds from the draws \<open>(-4/3, -2/3)\<close>.\<close>

lemma ext_example_from_reset:
  "reset_external_env GazeTask_init (Fin (- (4 / 3)), Fin (- (2 / 3))) = Inr ext_example"
  by (simp add: reset_external_env_def normal_def GazeTask_init_def ext_example_def)


text \<open>The definitions that a concrete run unfolds.\<close>

lemmas model_defs = step_def get_response_def get_stimulus_def normal2_def normal_def
  update_state_with_action_def update_state_with_stimulus_def bayes_update_def get_obs_def
  get_reward_def external_env_def get_distance_def fl_sq_def fl_sub_def vec_add_def
  vec_scale_def vec_clip_def reset_internal_env_def reset_external_env_def
  GazeModel_reset_def GazeModel_step_def get_info_def GazeTheory_init_def GazeTask_init_def
  GazeModel_init_def Let_def

subsection \<open>Arithmetic with the special values\<close>

lemma fl_add_NaN [simp]: "fl_add x NaN = NaN"
  by (cases x) simp_all

lemma fl_mul_NaN [simp]: "fl_mul x NaN = NaN"
  by (cases x) simp_all

lemma fl_div_NaN [simp]: "fl_div x NaN = NaN"
  by (cases x) simp_all

lemma fl_lt_NaN [simp]: "fl_lt x NaN = False"
  by (cases x) simp_all

lemma fl_sqrt_scale_not_neg:
  assumes "0 \<le> w"
  shows "\<not> fl_lt (fl_mul (Fin w) (fl_sqrt x)) (Fin 0)"
  using assms by (cases x) (auto simp: mult_less_0_iff)

lemma noise_scale_not_neg:
  assumes "0 \<le> w"
  shows "\<not> fl_lt (fl_mul (Fin w) (get_distance p q)) (Fin 0)"
  unfolding get_distance_def using assms by (rule fl_sqrt_scale_not_neg)

lemma get_distance_self: "get_distance (Fin x, Fin y) (Fin x, Fin y) = Fin 0"
  by (simp add: get_distance_def fl_sq_def fl_sub_def)

lemma get_distance_NaN: "get_distance p (NaN, NaN) = NaN"
  by (simp add: get_distance_def fl_sq_def fl_sub_def)

lemma sqrt_one_twentyfifth: "sqrt (1 / 25) = 1 / 5"
  by (rule real_sqrt_unique) (simp_all add: power2_eq_square)

subsection \<open>What a returning call has done\<close>

lemma step_InrD:
  assumes "step th s ext a zm zs = Inr (s', ext', ob, reward, done)"
  shows "\<exists>response stimulus stimulus_std.
           get_response th (update_state_with_action s a) zm = Inr response \<and>
           ext' = ext\<lparr>e_fixation := response\<rparr> \<and>
           done = fl_lt (get_distance response (e_target ext)) (fl_div (e_width ext) (Fin 2)) \<and>
           get_stimulus th ext' zs = Inr (stimulus, stimulus_std) \<and>
           s' = update_state_with_stimulus (update_state_with_action s a) stimulus stimulus_std \<and>
           ob = get_obs s' \<and> reward = get_reward s'"
  using assms
  by (auto simp: step_def external_env_def Let_def split: sum.splits prod.splits)

lemma get_stimulus_InrD:
  assumes "get_stimulus th ext zs = Inr (stimulus, stimulus_std)"
  shows "stimulus_std = fl_mul (stimulus_noise_weight th) (get_distance (e_target ext) (e_fixation ext)) \<and>
         stimulus = vec_add (e_target ext)
            (fl_add (Fin 0) (fl_mul stimulus_std (fst zs)), fl_add (Fin 0) (fl_mul stimulus_std (snd zs)))"
  using assms
  by (auto simp: get_stimulus_def normal2_def Let_def split: sum.splits if_splits)

lemma update_state_with_stimulus_frame:
  "i_fixation (update_state_with_stimulus s stm sd) = i_fixation s"
  "i_width (update_state_with_stimulus s stm sd) = i_width s"
  "i_action (update_state_with_stimulus s stm sd) = i_action s"
  "(i_target (update_state_with_stimulus s stm sd), i_target_std (update_state_with_stimulus s stm sd))
     = bayes_update stm sd (i_target s) (i_target_std s)"
  by (simp_all add: update_state_with_stimulus_def split: prod.splits)

lemma step_frame:
  assumes "step th s ext a zm zs = Inr (s', ext', ob, reward, done)"
  shows "i_fixation s' = i_fixation s" "i_width s' = i_width s" "reward = get_reward s'"
    "e_target ext' = e_target ext" "e_width ext' = e_width ext"
  using step_InrD[OF assms]
  by (auto simp: update_state_with_stimulus_frame update_state_with_action_def)

lemma step_done:
  assumes "step th s ext a zm zs = Inr (s', ext', ob, reward, done)"
  shows "done = goal_achieved ext'"
  using step_InrD[OF assms] by (auto simp: goal_achieved_def)

lemma step_total:
  assumes "oculamotor_noise_weight th = Fin wo" "0 \<le> wo"
    and "stimulus_noise_weight th = Fin ws" "0 \<le> ws"
  shows "\<exists>s' ext' ob reward done. step th s ext a zm zs = Inr (s', ext', ob, reward, done)"
proof -
  have "\<exists>res. step th s ext a zm zs = Inr res"
    using assms
    by (simp add: step_def get_response_def get_stimulus_def normal2_def external_env_def
        get_obs_def noise_scale_not_neg Let_def)
  then obtain res where "step th s ext a zm zs = Inr res" ..
  then show ?thesis by (cases res) auto
qed

lemma GazeModel_step_InrD:
  assumes "GazeModel_step m st a zm zs = Inr (st', ob, reward, done, nfo)"
  shows "\<exists>d. step (GT m) (internal st) (external st) a zm zs =
               Inr (internal st', external st', ob, reward, d) \<and>
             n_step st' = n_step st + 1 \<and>
             done = (max_steps m < n_step st + 1 \<or> d) \<and>
             nfo = get_info m st'"
  using assms
  by (auto simp: GazeModel_step_def Let_def split: sum.splits prod.splits if_splits)

lemma GazeModel_step_done:
  assumes "GazeModel_step m st a zm zs = Inr (st', ob, reward, done, nfo)"
  shows "n_step st' = n_step st + 1"
    and "done = (max_steps m < n_step st + 1 \<or> goal_achieved (external st'))"
proof -
  from GazeModel_step_InrD[OF assms] obtain d where
    s: "step (GT m) (internal st) (external st) a zm zs =
          Inr (internal st', external st', ob, reward, d)"
    and n: "n_step st' = n_step st + 1"
    and d: "done = (max_steps m < n_step st + 1 \<or> d)"
    by blast
  show "n_step st' = n_step st + 1" by (rule n)
  show "done = (max_steps m < n_step st + 1 \<or> goal_achieved (external st'))"
    using d step_done[OF s] by simp
qed

lemma GazeModel_step_total:
  assumes "oculamotor_noise_weight (GT m) = Fin wo" "0 \<le> wo"
    and "stimulus_noise_weight (GT m) = Fin ws" "0 \<le> ws"
  shows "\<exists>st' ob reward done nfo. GazeModel_step m st a zm zs = Inr (st', ob, reward, done, nfo)"
proof -
  from step_total[OF assms, of "internal st" "external st" a zm zs]
  obtain s' ext' ob reward d where
    "step (GT m) (internal st) (external st) a zm zs = Inr (s', ext', ob, reward, d)" by blast
  then have "GazeModel_step m st a zm zs =
      Inr (\<lparr>internal = s', external = ext', n_step = n_step st + 1\<rparr>, ob, reward,
           (if max_steps m < n_step st + 1 then True else d),
           get_info m \<lparr>internal = s', external = ext', n_step = n_step st + 1\<rparr>)"
    by (simp add: GazeModel_step_def Let_def)
  then show ?thesis by blast
qed

lemma GazeModel_run_total:
  assumes "oculamotor_noise_weight (GT m) = Fin wo" "0 \<le> wo"
    and "stimulus_noise_weight (GT m) = Fin ws" "0 \<le> ws"
  shows "\<exists>outs. GazeModel_run m st ins = Inr outs"
proof (induction ins arbitrary: st)
  case Nil
  then show ?case by simp
next
  case (Cons x ins)
  obtain a zm zs where x: "x = (a, zm, zs)" by (cases x) auto
  from GazeModel_step_total[OF assms, of st a zm zs] obtain st' ob reward d nfo where
    s: "GazeModel_step m st a zm zs = Inr (st', ob, reward, d, nfo)" by blast
  from Cons.IH[of st'] obtain outs where "GazeModel_run m st' ins = Inr outs" by blast
  with s x show ?case by simp
qed

subsection \<open>The fusion on finite numbers\<close>

lemma bayes_update_finite:
  assumes "s1 * s1 + s2 * s2 \<noteq> 0"
  shows "bayes_update (Fin x1, Fin y1) (Fin s1) (Fin x2, Fin y2) (Fin s2) =
           ((Fin (s2 * s2 / (s1 * s1 + s2 * s2) * x1 + s1 * s1 / (s1 * s1 + s2 * s2) * x2),
             Fin (s2 * s2 / (s1 * s1 + s2 * s2) * y1 + s1 * s1 / (s1 * s1 + s2 * s2) * y2)),
            Fin (sqrt (s1 * s1 * (s2 * s2) / (s1 * s1 + s2 * s2))))"
proof -
  have nn: "0 \<le> s1 * s1 * (s2 * s2) / (s1 * s1 + s2 * s2)"
    by (simp add: zero_le_divide_iff zero_le_mult_iff)
  show ?thesis
    using assms nn
    by (simp add: bayes_update_def fl_sq_def vec_add_def vec_scale_def Let_def)
qed

lemma bayes_update_both_zero:
  "bayes_update z1 (Fin 0) z2 (Fin 0) = ((NaN, NaN), NaN)"
  by (simp add: bayes_update_def fl_sq_def vec_add_def vec_scale_def Let_def)

lemma bayes_update_NaN_std:
  "bayes_update z1 sd z2 NaN = ((NaN, NaN), NaN)"
  by (simp add: bayes_update_def fl_sq_def vec_add_def vec_scale_def Let_def)

lemma bayes_update_exact_stimulus:
  assumes "sd \<noteq> 0"
  shows "bayes_update (Fin tx, Fin ty) (Fin 0) (Fin bx, Fin by) (Fin sd) = ((Fin tx, Fin ty), Fin 0)"
  using assms by (simp add: bayes_update_def fl_sq_def vec_add_def vec_scale_def Let_def)

lemma get_reward_NaN:
  assumes "i_target s = (NaN, NaN)"
  shows "get_reward s = NaN"
  using assms by (simp add: get_reward_def get_distance_NaN Let_def)

lemma get_stimulus_on_target:
  assumes "stimulus_noise_weight th = Fin w"
    and "e_target ext = (Fin tx, Fin ty)" and "e_fixation ext = e_target ext"
  shows "get_stimulus th ext (Fin p, Fin q) = Inr ((Fin tx, Fin ty), Fin 0)"
  using assms by (simp add: get_stimulus_def normal2_def get_distance_self vec_add_def Let_def)

lemma get_response_fixation:
  assumes "i_fixation s = i_fixation s'"
  shows "get_response th (update_state_with_action s a) z =
         get_response th (update_state_with_action s' a) z"
  using assms by (simp add: get_response_def update_state_with_action_def Let_def cong: sum.case_cong)

lemma step_landing:
  assumes "get_response th (update_state_with_action s a) zm = Inr (e_target ext)"
    and "stimulus_noise_weight th = Fin w"
    and "e_target ext = (Fin tx, Fin ty)"
  shows "step th s ext a zm (Fin p, Fin q) =
           Inr (update_state_with_stimulus (update_state_with_action s a) (Fin tx, Fin ty) (Fin 0),
                ext\<lparr>e_fixation := (Fin tx, Fin ty)\<rparr>,
                get_obs (update_state_with_stimulus (update_state_with_action s a)
                           (Fin tx, Fin ty) (Fin 0)),
                get_reward (update_state_with_stimulus (update_state_with_action s a)
                              (Fin tx, Fin ty) (Fin 0)),
                goal_achieved (ext\<lparr>e_fixation := (Fin tx, Fin ty)\<rparr>))"
proof -
  have g: "get_stimulus th (ext\<lparr>e_fixation := (Fin tx, Fin ty)\<rparr>) (Fin p, Fin q) =
             Inr ((Fin tx, Fin ty), Fin 0)"
    using assms(2,3) by (simp add: get_stimulus_on_target)
  have e: "external_env ext (Fin tx, Fin ty) =
             (ext\<lparr>e_fixation := (Fin tx, Fin ty)\<rparr>,
              goal_achieved (ext\<lparr>e_fixation := (Fin tx, Fin ty)\<rparr>))"
    by (simp add: external_env_def goal_achieved_def Let_def)
  show ?thesis
    unfolding step_def using assms(1,3) by (simp add: e g Let_def)
qed

lemma step_NaN_std:
  assumes "step th s ext a zm zs = Inr (s', ext', ob, reward, done)"
    and "i_target_std s = NaN"
  shows "i_target_std s' = NaN" "reward = NaN"
proof -
  from step_InrD[OF assms(1)] obtain stimulus stimulus_std where
    u: "s' = update_state_with_stimulus (update_state_with_action s a) stimulus stimulus_std"
    and r: "reward = get_reward s'" by blast
  have "(i_target s', i_target_std s') = ((NaN, NaN), NaN)"
    unfolding u using assms(2)
    by (simp add: update_state_with_stimulus_frame update_state_with_action_def
        bayes_update_NaN_std)
  then show "i_target_std s' = NaN" "reward = NaN"
    using r by (simp_all add: get_reward_NaN)
qed

section \<open>The order of perception and movement\<close>

text \<open>
  C1. In every cycle of \<^verbatim>\<open>step\<close> that returns, the standard deviation of the
  perceptual stimulus is \<^verbatim>\<open>stimulus_noise_weight\<close> times the distance between the external
  target and the external fixation that \<^verbatim>\<open>external_env(response)\<close> has just written, that
  is the response of this cycle and not the fixation before the movement.  The stimulus is
  the external target plus noise of that standard deviation, and it is not clipped.  It is
  this stimulus that is fused into the belief.
\<close>

theorem step_stimulus_after_move:
  assumes "step th s ext a zm zs = Inr (s', ext', ob, reward, done)"
  shows "\<exists>response stimulus stimulus_std.
           get_response th (update_state_with_action s a) zm = Inr response \<and>
           ext' = fst (external_env ext response) \<and>
           e_fixation ext' = response \<and>
           stimulus_std = fl_mul (stimulus_noise_weight th) (get_distance (e_target ext) response) \<and>
           stimulus = vec_add (e_target ext)
             (fl_add (Fin 0) (fl_mul stimulus_std (fst zs)),
              fl_add (Fin 0) (fl_mul stimulus_std (snd zs))) \<and>
           get_stimulus th ext' zs = Inr (stimulus, stimulus_std) \<and>
           s' = update_state_with_stimulus (update_state_with_action s a) stimulus stimulus_std"
proof -
  from step_InrD[OF assms] obtain response stimulus stimulus_std where
    r: "get_response th (update_state_with_action s a) zm = Inr response"
    and e: "ext' = ext\<lparr>e_fixation := response\<rparr>"
    and g: "get_stimulus th ext' zs = Inr (stimulus, stimulus_std)"
    and u: "s' = update_state_with_stimulus (update_state_with_action s a) stimulus stimulus_std"
    by blast
  from get_stimulus_InrD[OF g] e
  have "stimulus_std = fl_mul (stimulus_noise_weight th) (get_distance (e_target ext) response)"
    and "stimulus = vec_add (e_target ext)
             (fl_add (Fin 0) (fl_mul stimulus_std (fst zs)),
              fl_add (Fin 0) (fl_mul stimulus_std (snd zs)))"
    by simp_all
  moreover have "ext' = fst (external_env ext response)" and "e_fixation ext' = response"
    using e by (simp_all add: external_env_def Let_def)
  ultimately show ?thesis using r g u by blast
qed

text \<open>
  At a target \<open>(1, 0)\<close> and an action \<open>(0.2, 0.6)\<close> without motor noise the response
  is at distance 1 from the target, so the standard deviation is \<open>0.09\<close>, where the
  fixation before the movement, the corner \<open>(-1, -1)\<close>, would have given
  \<open>0.09 * sqrt 5\<close>.  With the draws \<open>(1, -1)\<close> the stimulus is \<open>(1.09, -0.09)\<close>, outside
  the range of the coordinates.
\<close>

theorem step_stimulus_after_move_witness:
  "\<exists>s' ext' ob reward done.
     step GazeTheory_init
       (fst (reset_internal_env
          \<lparr>e_fixation = (Fin (- 1), Fin (- 1)), e_target = (Fin 1, Fin 0), e_width = Fin 0.15\<rparr>))
       \<lparr>e_fixation = (Fin (- 1), Fin (- 1)), e_target = (Fin 1, Fin 0), e_width = Fin 0.15\<rparr>
       (Fin 0.2, Fin 0.6) (Fin 0, Fin 0) (Fin 1, Fin (- 1)) = Inr (s', ext', ob, reward, done) \<and>
     e_fixation ext' = (Fin 0.2, Fin 0.6) \<and>
     get_stimulus GazeTheory_init ext' (Fin 1, Fin (- 1)) =
       Inr ((Fin 1.09, Fin (- 0.09)), Fin 0.09) \<and>
     fl_mul (stimulus_noise_weight GazeTheory_init)
       (get_distance (Fin 1, Fin 0) (Fin (- 1), Fin (- 1))) \<noteq> Fin 0.09"
proof -
  let ?ext = "\<lparr>e_fixation = (Fin (- 1), Fin (- 1)), e_target = (Fin 1, Fin 0), e_width = Fin 0.15\<rparr>"
  let ?s = "fst (reset_internal_env ?ext)"
  obtain s' ext' ob reward d where
    h: "step GazeTheory_init ?s ?ext (Fin 0.2, Fin 0.6) (Fin 0, Fin 0) (Fin 1, Fin (- 1))
          = Inr (s', ext', ob, reward, d)"
    using step_total[of GazeTheory_init "0.01" "0.09"] unfolding GazeTheory_init_def by force
  from step_stimulus_after_move[OF h] obtain response stimulus stimulus_std where
    r: "get_response GazeTheory_init (update_state_with_action ?s (Fin 0.2, Fin 0.6)) (Fin 0, Fin 0)
          = Inr response"
    and f: "e_fixation ext' = response"
    and sd: "stimulus_std = fl_mul (stimulus_noise_weight GazeTheory_init)
               (get_distance (e_target ?ext) response)"
    and st: "stimulus = vec_add (e_target ?ext)
               (fl_add (Fin 0) (fl_mul stimulus_std (fst (Fin 1, Fin (- 1)))),
                fl_add (Fin 0) (fl_mul stimulus_std (snd (Fin 1, Fin (- 1)))))"
    and g: "get_stimulus GazeTheory_init ext' (Fin 1, Fin (- 1)) = Inr (stimulus, stimulus_std)"
    by blast
  from r have resp: "response = (Fin 0.2, Fin 0.6)"
    by (simp add: model_defs)
  from sd resp have sd': "stimulus_std = Fin 0.09"
    by (simp add: model_defs)
  from st sd' have "stimulus = (Fin 1.09, Fin (- 0.09))"
    by (simp add: model_defs)
  with g sd' have g': "get_stimulus GazeTheory_init ext' (Fin 1, Fin (- 1)) =
      Inr ((Fin 1.09, Fin (- 0.09)), Fin 0.09)" by simp
  from f resp have f': "e_fixation ext' = (Fin 0.2, Fin 0.6)" by simp
  have n: "fl_mul (stimulus_noise_weight GazeTheory_init)
       (get_distance (Fin 1, Fin 0) (Fin (- 1), Fin (- 1))) \<noteq> Fin 0.09"
    by (simp add: model_defs)
  from h f' g' n show ?thesis by blast
qed

section \<open>The reward\<close>

text \<open>
  C2. The reward that a call of \<^verbatim>\<open>step\<close> returns is computed on the internal state as
  the call leaves it, that is after the belief has been replaced by the fusion of this
  call's stimulus: it is 0 when the distance between the internal fixation and the belief
  mean is below half the width, and minus that distance otherwise.  The external state
  does not enter it.
\<close>

theorem reward_from_updated_belief:
  assumes "step th s ext a zm zs = Inr (s', ext', ob, reward, done)"
  shows "reward =
           (if fl_lt (get_distance (i_fixation s') (i_target s')) (fl_div (i_width s') (Fin 2))
            then Fin 0 else fl_neg (get_distance (i_fixation s') (i_target s'))) \<and>
         (\<exists>stimulus stimulus_std.
            get_stimulus th ext' zs = Inr (stimulus, stimulus_std) \<and>
            (i_target s', i_target_std s') =
              bayes_update stimulus stimulus_std (i_target s) (i_target_std s))"
proof -
  from step_InrD[OF assms] obtain response stimulus stimulus_std where
    g: "get_stimulus th ext' zs = Inr (stimulus, stimulus_std)"
    and u: "s' = update_state_with_stimulus (update_state_with_action s a) stimulus stimulus_std"
    and r: "reward = get_reward s'"
    by blast
  have "(i_target s', i_target_std s') =
          bayes_update stimulus stimulus_std (i_target s) (i_target_std s)"
    unfolding u by (simp add: update_state_with_stimulus_frame update_state_with_action_def)
  with g r show ?thesis by (auto simp: get_reward_def Let_def)
qed

text \<open>
  A response that lands on the target \<open>(-0.4, -0.2)\<close> moves the belief onto it; the reward
  is minus the distance from the corner \<open>(-1, -1)\<close> to the belief, which is 1.
\<close>

theorem reward_from_updated_belief_witness:
  "step GazeTheory_init
     (fst (reset_internal_env
        \<lparr>e_fixation = (Fin (- 1), Fin (- 1)), e_target = (Fin (- 0.4), Fin (- 0.2)),
           e_width = Fin 0.15\<rparr>))
     \<lparr>e_fixation = (Fin (- 1), Fin (- 1)), e_target = (Fin (- 0.4), Fin (- 0.2)),
        e_width = Fin 0.15\<rparr>
     (Fin (- 0.4), Fin (- 0.2)) (Fin 0, Fin 0) (Fin 0, Fin 0) =
   Inr (\<lparr>i_fixation = (Fin (- 1), Fin (- 1)), i_target = (Fin (- 0.4), Fin (- 0.2)),
           i_target_std = Fin 0, i_width = Fin 0.15, i_action = (Fin (- 0.4), Fin (- 0.2))\<rparr>,
        \<lparr>e_fixation = (Fin (- 0.4), Fin (- 0.2)), e_target = (Fin (- 0.4), Fin (- 0.2)),
           e_width = Fin 0.15\<rparr>,
        (Fin (- 0.4), Fin (- 0.2), Fin 0), Fin (- 1), True) \<and>
   Fin (- 1) =
     (if fl_lt (get_distance (Fin (- 1), Fin (- 1)) (Fin (- 0.4), Fin (- 0.2)))
               (fl_div (Fin 0.15) (Fin 2))
      then Fin 0
      else fl_neg (get_distance (Fin (- 1), Fin (- 1)) (Fin (- 0.4), Fin (- 0.2))))"
proof -
  let ?ext = "\<lparr>e_fixation = (Fin (- 1), Fin (- 1)), e_target = (Fin (- 0.4), Fin (- 0.2)),
                 e_width = Fin 0.15\<rparr>"
  let ?s' = "\<lparr>i_fixation = (Fin (- 1), Fin (- 1)), i_target = (Fin (- 0.4), Fin (- 0.2)),
           i_target_std = Fin 0, i_width = Fin 0.15, i_action = (Fin (- 0.4), Fin (- 0.2))\<rparr>"
  let ?ext' = "\<lparr>e_fixation = (Fin (- 0.4), Fin (- 0.2)), e_target = (Fin (- 0.4), Fin (- 0.2)),
           e_width = Fin 0.15\<rparr>"
  have h: "step GazeTheory_init (fst (reset_internal_env ?ext)) ?ext
             (Fin (- 0.4), Fin (- 0.2)) (Fin 0, Fin 0) (Fin 0, Fin 0) =
           Inr (?s', ?ext', (Fin (- 0.4), Fin (- 0.2), Fin 0), Fin (- 1), True)"
    by (simp add: model_defs)
  from reward_from_updated_belief[OF h] have "Fin (- 1) =
     (if fl_lt (get_distance (Fin (- 1), Fin (- 1)) (Fin (- 0.4), Fin (- 0.2)))
               (fl_div (Fin 0.15) (Fin 2))
      then Fin 0
      else fl_neg (get_distance (Fin (- 1), Fin (- 1)) (Fin (- 0.4), Fin (- 0.2))))"
    unfolding internal_state.select_convs by (rule conjunct1)
  with h show ?thesis by (rule conjI)
qed

section \<open>The internal fixation\<close>

lemma run_steps_frame:
  assumes "run_steps th s ext ins = Inr outs" and "(s', ext', ob, reward, done) \<in> set outs"
  shows "i_fixation s' = i_fixation s \<and> i_width s' = i_width s \<and> reward = get_reward s'"
  using assms
proof (induction ins arbitrary: s ext outs)
  case Nil
  then show ?case by simp
next
  case (Cons x ins)
  obtain a zm zs where x: "x = (a, zm, zs)" by (cases x) auto
  from Cons.prems(1) x obtain s1 ext1 ob1 r1 d1 outs1 where
    st: "step th s ext a zm zs = Inr (s1, ext1, ob1, r1, d1)"
    and rest: "run_steps th s1 ext1 ins = Inr outs1"
    and outs: "outs = (s1, ext1, ob1, r1, d1) # outs1"
    by (auto split: sum.splits)
  from Cons.prems(2) outs
  consider "(s', ext', ob, reward, done) = (s1, ext1, ob1, r1, d1)"
    | "(s', ext', ob, reward, done) \<in> set outs1" by auto
  then show ?case
  proof cases
    case 1
    with step_frame[OF st] show ?thesis by simp
  next
    case 2
    from Cons.IH[OF rest 2] step_frame[OF st] show ?thesis by simp
  qed
qed

text \<open>
  C3. No call of \<^verbatim>\<open>step\<close> changes the internal fixation or the internal width.  After
  \<^verbatim>\<open>reset_internal_env\<close>, whatever the sequence of calls, the internal fixation is still
  \<open>(-1, -1)\<close> and the width is the one copied at the reset: the response goes to the task
  and is never written back, and every reward is measured from that corner.
\<close>

theorem internal_fixation_never_moves:
  assumes "run_steps th (fst (reset_internal_env ext0)) ext ins = Inr outs"
    and "(s', ext', ob, reward, done) \<in> set outs"
  shows "i_fixation s' = (Fin (- 1), Fin (- 1)) \<and> i_width s' = e_width ext0 \<and>
         reward =
           (if fl_lt (get_distance (Fin (- 1), Fin (- 1)) (i_target s')) (fl_div (e_width ext0) (Fin 2))
            then Fin 0 else fl_neg (get_distance (Fin (- 1), Fin (- 1)) (i_target s')))"
proof -
  have f: "i_fixation (fst (reset_internal_env ext0)) = (Fin (- 1), Fin (- 1))"
    and w: "i_width (fst (reset_internal_env ext0)) = e_width ext0"
    by (simp_all add: reset_internal_env_def Let_def)
  from run_steps_frame[OF assms] f w
  have "i_fixation s' = (Fin (- 1), Fin (- 1))" "i_width s' = e_width ext0"
    "reward = get_reward s'" by simp_all
  then show ?thesis by (simp add: get_reward_def Let_def)
qed

text \<open>
  Two calls: the external fixation follows the responses, the internal one stays.
\<close>

theorem internal_fixation_never_moves_witness:
  "\<exists>s1 e1 o1 r1 d1 s2 e2 o2 r2 d2.
     run_steps GazeTheory_init
       (fst (reset_internal_env
          \<lparr>e_fixation = (Fin (- 1), Fin (- 1)), e_target = (Fin 0, Fin 0), e_width = Fin 0.15\<rparr>))
       \<lparr>e_fixation = (Fin (- 1), Fin (- 1)), e_target = (Fin 0, Fin 0), e_width = Fin 0.15\<rparr>
       [((Fin 0.6, Fin 0.8), (Fin 0, Fin 0), (Fin 0, Fin 0)),
        ((Fin 0, Fin 0.5), (Fin 0, Fin 0), (Fin 1, Fin 1))]
       = Inr [(s1, e1, o1, r1, d1), (s2, e2, o2, r2, d2)] \<and>
     e_fixation e1 = (Fin 0.6, Fin 0.8) \<and> e_fixation e2 = (Fin 0, Fin 0.5) \<and>
     i_fixation s1 = (Fin (- 1), Fin (- 1)) \<and> i_fixation s2 = (Fin (- 1), Fin (- 1)) \<and>
     i_width s2 = Fin 0.15"
proof -
  let ?ext = "\<lparr>e_fixation = (Fin (- 1), Fin (- 1)), e_target = (Fin 0, Fin 0), e_width = Fin 0.15\<rparr>"
  let ?ins = "[((Fin 0.6, Fin 0.8), (Fin 0, Fin 0), (Fin 0, Fin 0)),
        ((Fin 0, Fin 0.5), (Fin 0, Fin 0), (Fin 1, Fin 1))]"
  have "\<exists>x1 x2. run_steps GazeTheory_init (fst (reset_internal_env ?ext)) ?ext ?ins = Inr [x1, x2] \<and>
          e_fixation (fst (snd x1)) = (Fin 0.6, Fin 0.8) \<and>
          e_fixation (fst (snd x2)) = (Fin 0, Fin 0.5)"
    by (simp add: model_defs)
  then obtain x1 x2 where
    r: "run_steps GazeTheory_init (fst (reset_internal_env ?ext)) ?ext ?ins = Inr [x1, x2]"
    and f1: "e_fixation (fst (snd x1)) = (Fin 0.6, Fin 0.8)"
    and f2: "e_fixation (fst (snd x2)) = (Fin 0, Fin 0.5)" by blast
  obtain s1 e1 o1 r1 d1 where x1: "x1 = (s1, e1, o1, r1, d1)" by (cases x1) auto
  obtain s2 e2 o2 r2 d2 where x2: "x2 = (s2, e2, o2, r2, d2)" by (cases x2) auto
  have m1: "(s1, e1, o1, r1, d1) \<in> set [x1, x2]" and m2: "(s2, e2, o2, r2, d2) \<in> set [x1, x2]"
    by (simp_all add: x1 x2)
  from internal_fixation_never_moves[OF r m1] internal_fixation_never_moves[OF r m2]
  have "i_fixation s1 = (Fin (- 1), Fin (- 1))" "i_fixation s2 = (Fin (- 1), Fin (- 1))"
    "i_width s2 = Fin 0.15" by simp_all
  moreover from r have "run_steps GazeTheory_init (fst (reset_internal_env ?ext)) ?ext ?ins =
      Inr [(s1, e1, o1, r1, d1), (s2, e2, o2, r2, d2)]" unfolding x1 x2 .
  moreover from f1 f2 have "e_fixation e1 = (Fin 0.6, Fin 0.8)" "e_fixation e2 = (Fin 0, Fin 0.5)"
    by (simp_all add: x1 x2)
  ultimately show ?thesis by blast
qed

section \<open>Bayesian fusion\<close>

text \<open>
  C5. When the two standard deviations are not both zero, \<^verbatim>\<open>bayes_update\<close> returns, for
  each coordinate, the mean weighted by the precisions, and the standard deviation of the
  specification's formula.
\<close>

theorem bayes_update_precision_weighted:
  assumes "s1 \<noteq> 0 \<or> s2 \<noteq> 0"
  shows "bayes_update (Fin x1, Fin y1) (Fin s1) (Fin x2, Fin y2) (Fin s2) =
           ((Fin (fuse_mean x1 s1 x2 s2), Fin (fuse_mean y1 s1 y2 s2)), Fin (fuse_std s1 s2))"
proof -
  have nz: "s1 * s1 + s2 * s2 \<noteq> 0" using assms by (simp add: sum_squares_eq_zero_iff)
  show ?thesis
    by (simp add: bayes_update_finite[OF nz] fuse_mean_def fuse_std_def power2_eq_square)
qed

lemma fuse_std_example: "fuse_std (3 / 40) (1 / 10) = 3 / 50"
proof -
  have "((3 / 40)\<^sup>2 * (1 / 10)\<^sup>2) / ((3 / 40)\<^sup>2 + (1 / 10)\<^sup>2) = ((3 / 50)::real)\<^sup>2"
    by (simp add: power2_eq_square)
  then show ?thesis unfolding fuse_std_def by simp
qed

text \<open>
  Standard deviations \<open>0.075\<close> and \<open>0.1\<close>: the weights are \<open>0.64\<close> and \<open>0.36\<close>.
\<close>

theorem bayes_update_precision_weighted_witness:
  "bayes_update (Fin 0.3, Fin (- 0.2)) (Fin 0.075) (Fin 0, Fin 0) (Fin 0.1) =
     ((Fin 0.192, Fin (- 0.128)), Fin 0.06)"
proof -
  have "(3 / 40 :: real) \<noteq> 0 \<or> (1 / 10 :: real) \<noteq> 0" by simp
  from bayes_update_precision_weighted[OF this, of "3 / 10" "- (2 / 10)" 0 0]
  show ?thesis by (simp add: fuse_std_example fuse_mean_def power2_eq_square)
qed

section \<open>Commutativity and shrinking of the fusion\<close>

subsection \<open>The exact formula\<close>

text \<open>
  On real numbers the standard deviation of the specification's formula is strictly below
  the first of two positive standard deviations, and the formula is symmetric, so it is
  below the second as well.
\<close>

lemma fuse_std_less:
  assumes "0 < s1" "0 < s2"
  shows "fuse_std s1 s2 < s1"
proof -
  have p: "0 < s1\<^sup>2" "0 < s2\<^sup>2" using assms by simp_all
  then have l: "s1\<^sup>2 * s2\<^sup>2 < s1\<^sup>2 * (s1\<^sup>2 + s2\<^sup>2)" by (simp add: algebra_simps)
  have "0 < s1\<^sup>2 + s2\<^sup>2" using p by (rule add_pos_pos)
  then have "s1\<^sup>2 * s2\<^sup>2 / (s1\<^sup>2 + s2\<^sup>2) < s1\<^sup>2"
    using l by (simp only: pos_divide_less_eq)
  then have "fuse_std s1 s2 < sqrt (s1\<^sup>2)"
    unfolding fuse_std_def by (simp only: real_sqrt_less_iff)
  then show ?thesis using assms(1) by simp
qed

lemma fuse_std_commute: "fuse_std s1 s2 = fuse_std s2 s1"
  by (simp add: fuse_std_def mult.commute add.commute)

subsection \<open>Rounding to binary64\<close>

lemma round_half_even_near: "\<bar>of_int (round_half_even r) - r\<bar> \<le> 1 / 2"
  unfolding round_half_even_def Let_def by (auto simp: abs_if) linarith+

lemma round_half_even_eqI:
  assumes "2 * of_int m - 1 < 2 * r" "2 * r < 2 * of_int m + 1"
  shows "round_half_even r = m"
proof -
  have "\<lfloor>r\<rfloor> = m \<or> \<lfloor>r\<rfloor> = m - 1" using assms by linarith
  then show ?thesis
    using assms unfolding round_half_even_def Let_def
    by (auto; linarith)
qed

lemma floor_log2_eqI:
  assumes "2 powi e \<le> x" "x < 2 powi (e + 1)"
  shows "\<lfloor>log 2 x\<rfloor> = e"
proof -
  have p: "0 < x" using assms(1) zero_less_power_int[of "2::real" e] by linarith
  have "(2::real) powr (of_int e) \<le> x" "x < 2 powr (of_int e + 1)"
    using assms powr_real_of_int'[of "2::real" e] powr_real_of_int'[of "2::real" "e + 1"]
    by simp_all
  then show ?thesis using floor_log_eq_powr_iff[of x 2 e] p by simp
qed

text \<open>
  A real number within half a unit in the last place of a normal or subnormal binary64
  number \<open>m * 2\<^sup>e\<close>, and not at a tie, rounds to it.
\<close>

lemma to_double_eqI:
  fixes m e :: int
  assumes "2 ^ 52 \<le> m" "m < 2 ^ 53" "- 1074 \<le> e" "e \<le> 971"
    and "2 powi (e + 52) \<le> x" "x < 2 powi (e + 53)"
    and "(2 * of_int m - 1) * 2 powi e < 2 * x" "2 * x < (2 * of_int m + 1) * 2 powi e"
  shows "to_double x = Fin (of_int m * 2 powi e)"
proof -
  have pe: "(0::real) < 2 powi e" by simp
  have xp: "0 < x" using assms(5) zero_less_power_int[of "2::real" "e + 52"] by linarith
  have "\<lfloor>log 2 \<bar>x\<bar>\<rfloor> = e + 52"
    using floor_log2_eqI[of "e + 52" x] assms(5,6) xp by (simp add: add.assoc)
  then have ue: "ulp_exponent x = e" using assms(3) by (simp add: ulp_exponent_def)
  have "2 * of_int m - 1 < 2 * (x / 2 powi e)" "2 * (x / 2 powi e) < 2 * of_int m + 1"
    using assms(7,8) pe by (simp_all add: field_simps)
  then have r: "round_half_even (x / 2 powi e) = m" by (rule round_half_even_eqI)
  have "real_of_int m < 2 ^ 53" using assms(2) by (metis of_int_less_iff of_int_numeral of_int_power)
  then have "real_of_int m * 2 powi e < 2 ^ 53 * 2 powi e" using pe by simp
  also have "\<dots> = 2 powi (e + 53)" by (simp add: power_int_add)
  also have "\<dots> \<le> 2 powi 1024" using assms(4) by (intro power_int_increasing) simp_all
  finally have hi: "real_of_int m * 2 powi e < 2 ^ 1024" by simp
  have "0 \<le> real_of_int m" using assms(1) by (smt (verit) of_int_nonneg zero_le_power)
  then have lo: "0 \<le> real_of_int m * 2 powi e" using pe by simp
  show ?thesis
    using xp ue r hi lo by (simp add: to_double_def Let_def)
qed

text \<open>In the normal range the rounded value is within the factor \<open>1 \<plusminus> 2\<^sup>-\<^sup>5\<^sup>3\<close>.\<close>

lemma to_double_near:
  assumes "1 / 2 ^ 1022 \<le> x" "x \<le> 2 ^ 1023"
  shows "\<exists>r. to_double x = Fin r \<and> x * (1 - 1 / 2 ^ 53) \<le> r \<and> r \<le> x * (1 + 1 / 2 ^ 53)"
proof -
  have xp: "0 < x" using assms(1) by (smt (verit) divide_pos_pos zero_less_power)
  define e0 where "e0 = \<lfloor>log 2 x\<rfloor>"
  have b: "2 powr (of_int e0) \<le> x" "x < 2 powr (of_int e0 + 1)"
    using floor_log_eq_powr_iff[of x 2 e0] xp unfolding e0_def by simp_all
  have lo: "2 powi e0 \<le> x"
    using b(1) powr_real_of_int'[of "2::real" e0] by simp
  have "(2::real) powr (- 1022) \<le> x"
    using assms(1) powr_real_of_int'[of "2::real" "- 1022"] by (simp add: power_int_minus_divide)
  then have "- 1022 \<le> log 2 x" using xp by (simp add: le_log_iff)
  then have e0: "- 1022 \<le> e0" unfolding e0_def by (simp add: le_floor_iff)
  then have ue: "ulp_exponent x = e0 - 52"
    using xp by (simp add: ulp_exponent_def e0_def)
  define E where "E = e0 - 52"
  have pE: "(0::real) < 2 powi E" by simp
  have E2: "(2::real) powi E = 2 powi e0 / 2 ^ 52"
    unfolding E_def by (simp add: power_int_diff)
  define q where "q = round_half_even (x / 2 powi E)"
  define r where "r = real_of_int q * 2 powi E"
  have "\<bar>real_of_int q - x / 2 powi E\<bar> \<le> 1 / 2"
    unfolding q_def by (rule round_half_even_near)
  then have "\<bar>real_of_int q - x / 2 powi E\<bar> * 2 powi E \<le> 1 / 2 * 2 powi E"
    using pE by (intro mult_right_mono) simp_all
  moreover have "(real_of_int q - x / 2 powi E) * 2 powi E = r - x"
    using pE unfolding r_def by (simp add: left_diff_distrib)
  then have "\<bar>real_of_int q - x / 2 powi E\<bar> * 2 powi E = \<bar>r - x\<bar>"
    using pE abs_mult_pos[of "2 powi E" "real_of_int q - x / 2 powi E"] by simp
  ultimately have "\<bar>r - x\<bar> \<le> 2 powi E / 2" by simp
  also have "\<dots> = 2 powi e0 / 2 ^ 53" by (simp add: E2)
  also have "\<dots> \<le> x / 2 ^ 53" using lo by (simp add: divide_right_mono)
  finally have d: "\<bar>r - x\<bar> \<le> x / 2 ^ 53" .
  then have "x - x / 2 ^ 53 \<le> r" "r \<le> x + x / 2 ^ 53" by linarith+
  then have n1: "x * (1 - 1 / 2 ^ 53) \<le> r" and n2: "r \<le> x * (1 + 1 / 2 ^ 53)"
    by (simp_all add: algebra_simps)
  have "x * (1 + 1 / 2 ^ 53) \<le> 2 ^ 1023 * (1 + 1 / 2 ^ 53)"
    using assms(2) by (intro mult_right_mono) simp_all
  also have "\<dots> < (2 ^ 1024 :: real)" by simp
  finally have hi: "r < 2 ^ 1024" using n2 by simp
  have "0 < x * (1 - 1 / 2 ^ 53)" using xp by simp
  then have rp: "0 < r" using n1 by simp
  have "to_double x = Fin r"
    using xp hi rp ue unfolding r_def q_def E_def by (simp add: to_double_def Let_def)
  with n1 n2 show ?thesis by blast
qed

lemma to_double_range:
  assumes "1 / 2 ^ 1022 \<le> lo" "lo \<le> x" "x \<le> hi" "hi \<le> 2 ^ 1023"
  shows "\<exists>r. to_double x = Fin r \<and> x * (1 - 1 / 2 ^ 53) \<le> r \<and> r \<le> x * (1 + 1 / 2 ^ 53) \<and>
             lo / 2 \<le> r \<and> r \<le> 2 * hi"
proof -
  have lp: "0 < lo" using assms(1) by (smt (verit) divide_pos_pos zero_less_power)
  have "1 / 2 ^ 1022 \<le> x" "x \<le> 2 ^ 1023" using assms by linarith+
  from to_double_near[OF this] obtain r where
    r: "to_double x = Fin r" "x * (1 - 1 / 2 ^ 53) \<le> r" "r \<le> x * (1 + 1 / 2 ^ 53)" by blast
  have xp: "0 < x" using lp assms(2) by linarith
  have "x / 2 \<le> x * (1 - 1 / 2 ^ 53)" using xp by simp
  then have l: "lo / 2 \<le> r" using r(2) assms(2) by linarith
  have "x * (1 + 1 / 2 ^ 53) \<le> x * 2" using xp by simp
  then have h: "r \<le> 2 * hi" using r(3) assms(3) by linarith
  from r l h show ?thesis by blast
qed

text \<open>Below half of the least subnormal number the rounded value is zero.\<close>

lemma to_double_tiny:
  assumes "0 < x" "x < 1 / 2 ^ 1075"
  shows "to_double x = Fin 0"
proof -
  have "x < 2 powr (- 1075)"
    using assms(2) powr_real_of_int'[of "2::real" "- 1075"] by (simp add: power_int_minus_divide)
  then have "log 2 x < - 1075" using assms(1) by (simp add: log_less_iff)
  then have "\<lfloor>log 2 x\<rfloor> \<le> - 1022" by linarith
  then have ue: "ulp_exponent x = - 1074" using assms(1) by (simp add: ulp_exponent_def)
  have k: "x / 2 powi (- 1074) = x * 2 ^ 1074" by (simp add: power_int_minus_divide)
  have "x * 2 ^ 1074 < 1 / 2 ^ 1075 * 2 ^ 1074"
    using assms(2) by (intro mult_strict_right_mono) simp_all
  then have "2 * (x * 2 ^ 1074) < 1" by simp
  moreover have "0 < x * 2 ^ 1074" using assms(1) by simp
  ultimately have "round_half_even (x * 2 ^ 1074) = 0"
    using round_half_even_eqI[of 0 "x * 2 ^ 1074"] by simp
  then show ?thesis
    using assms(1) ue k by (simp add: to_double_def Let_def)
qed

lemma to_double_zero: "to_double 0 = Fin 0"
  by (simp add: to_double_def)

subsection \<open>The rounded operations\<close>

lemma fl_add_commute: "fl_add x y = fl_add y x"
  by (cases x; cases y) simp_all

lemma fl_mul_commute: "fl_mul x y = fl_mul y x"
  by (cases x; cases y) (simp_all add: mult.commute)

lemma d_add_commute: "d_add x y = d_add y x"
  unfolding d_add_def by (simp only: fl_add_commute[of x y])

lemma d_mul_commute: "d_mul x y = d_mul y x"
  unfolding d_mul_def by (simp only: fl_mul_commute[of x y])

lemma d_vec_add_commute: "d_vec_add p q = d_vec_add q p"
  unfolding d_vec_add_def by (simp only: d_add_commute[of "fst p"] d_add_commute[of "snd p"])

lemma d_sq_Fin: "d_sq (Fin s) = to_double (s * s)"
  by (simp add: d_sq_def d_mul_def)

lemma d_add_Fin: "d_add (Fin a) (Fin b) = to_double (a + b)"
  by (simp add: d_add_def)

lemma d_mul_Fin: "d_mul (Fin a) (Fin b) = to_double (a * b)"
  by (simp add: d_mul_def)

lemma d_div_Fin: "b \<noteq> 0 \<Longrightarrow> d_div (Fin a) (Fin b) = to_double (a / b)"
  by (simp add: d_div_def)

lemma d_sqrt_Fin: "0 \<le> a \<Longrightarrow> d_sqrt (Fin a) = to_double (sqrt a)"
  by (simp add: d_sqrt_def)

lemma fl_div_Fin: "b \<noteq> 0 \<Longrightarrow> fl_div (Fin a) (Fin b) = Fin (a / b)"
  by simp

lemma fl_sqrt_Fin: "0 \<le> a \<Longrightarrow> fl_sqrt (Fin a) = Fin (sqrt a)"
  by simp

lemma bayes_update_double_std:
  "snd (bayes_update_double z1 sigma1 z2 sigma2) =
     d_sqrt (d_div (d_mul (d_sq sigma1) (d_sq sigma2)) (d_add (d_sq sigma1) (d_sq sigma2)))"
  by (simp add: bayes_update_double_def Let_def)

lemma update_state_with_stimulus_double_std:
  "i_target_std (update_state_with_stimulus_double s stimulus stimulus_std) =
     snd (bayes_update_double stimulus stimulus_std (i_target s) (i_target_std s))"
  by (simp add: update_state_with_stimulus_double_def split: prod.splits)

lemma bayes_update_double_commute:
  "bayes_update_double z1 s1 z2 s2 = bayes_update_double z2 s2 z1 s1"
  unfolding bayes_update_double_def Let_def
  by (simp only: d_add_commute[of "d_sq s1"] d_mul_commute[of "d_sq s1"]
        d_vec_add_commute[of "d_vec_scale (d_div (d_sq s2) (d_add (d_sq s2) (d_sq s1))) z1"])

subsection \<open>The fusion of the standard deviations 0.1 and 7e-12\<close>

text \<open>
  The two inputs are binary64 numbers, and each operation of \<^verbatim>\<open>posterior_std\<close> is rounded
  in turn: the two squares, their sum (which rounds to the larger square), their product,
  the quotient, and the square root.
\<close>

lemma ex_in1: "to_double double_0_1 = Fin double_0_1"
  unfolding double_0_1_def
  using to_double_eqI[where m = 7205759403792794 and e = "- 56" and x = "7205759403792794 / 2 ^ 56"]
  by simp

lemma ex_in2: "to_double double_7em12 = Fin double_7em12"
  unfolding double_7em12_def
  using to_double_eqI[where m = 8665580274997662 and e = "- 90" and x = "8665580274997662 / 2 ^ 90"]
  by simp

lemma ex_sq1: "to_double (double_0_1 * double_0_1) = Fin (5764607523034236 / 2 ^ 59)"
  unfolding double_0_1_def
  using to_double_eqI[where m = 5764607523034236 and e = "- 59"
      and x = "7205759403792794 / 2 ^ 56 * (7205759403792794 / 2 ^ 56)"]
  by simp

lemma ex_sq2: "to_double (double_7em12 * double_7em12) = Fin (8336917989562993 / 2 ^ 127)"
  unfolding double_7em12_def
  using to_double_eqI[where m = 8336917989562993 and e = "- 127"
      and x = "8665580274997662 / 2 ^ 90 * (8665580274997662 / 2 ^ 90)"]
  by simp

lemma ex_sum:
  "to_double (5764607523034236 / 2 ^ 59 + 8336917989562993 / 2 ^ 127) =
     Fin (5764607523034236 / 2 ^ 59)"
  using to_double_eqI[where m = 5764607523034236 and e = "- 59"
      and x = "5764607523034236 / 2 ^ 59 + 8336917989562993 / 2 ^ 127"]
  by simp

lemma ex_prod:
  "to_double (5764607523034236 / 2 ^ 59 * (8336917989562993 / 2 ^ 127)) =
     Fin (5335627513320317 / 2 ^ 133)"
  using to_double_eqI[where m = 5335627513320317 and e = "- 133"
      and x = "5764607523034236 / 2 ^ 59 * (8336917989562993 / 2 ^ 127)"]
  by simp

lemma ex_quot:
  "to_double (5335627513320317 / 2 ^ 133 / (5764607523034236 / 2 ^ 59)) =
     Fin (8336917989562994 / 2 ^ 127)"
  using to_double_eqI[where m = 8336917989562994 and e = "- 127"
      and x = "5335627513320317 / 2 ^ 133 / (5764607523034236 / 2 ^ 59)"]
  by simp

lemma ex_sqrt:
  "to_double (sqrt (8336917989562994 / 2 ^ 127)) = Fin (8665580274997663 / 2 ^ 90)"
proof -
  let ?r = "8336917989562994 / 2 ^ 127 :: real"
  let ?lo = "(2 * 8665580274997663 - 1) / 2 ^ 91 :: real"
  let ?hi = "(2 * 8665580274997663 + 1) / 2 ^ 91 :: real"
  have "?lo\<^sup>2 < ?r" by (simp add: power2_eq_square)
  then have lo: "?lo < sqrt ?r" by (rule real_less_rsqrt)
  have "?r < ?hi\<^sup>2" by (simp add: power2_eq_square)
  then have hi: "sqrt ?r < ?hi" by (intro real_less_lsqrt) simp_all
  show ?thesis
    using to_double_eqI[where m = 8665580274997663 and e = "- 90" and x = "sqrt ?r"] lo hi
    by simp
qed

lemma ex_posterior_std:
  "snd (bayes_update_double (Fin 0, Fin 0) (Fin double_0_1) (Fin 0, Fin 0) (Fin double_7em12)) =
     Fin (8665580274997663 / 2 ^ 90)"
proof -
  have a: "d_sq (Fin double_0_1) = Fin (5764607523034236 / 2 ^ 59)"
    by (simp only: d_sq_def d_mul_def fl_mul.simps(1) fl_round.simps(1) ex_sq1)
  have b: "d_sq (Fin double_7em12) = Fin (8336917989562993 / 2 ^ 127)"
    by (simp only: d_sq_def d_mul_def fl_mul.simps(1) fl_round.simps(1) ex_sq2)
  have q: "d_add (Fin (5764607523034236 / 2 ^ 59)) (Fin (8336917989562993 / 2 ^ 127)) =
             Fin (5764607523034236 / 2 ^ 59)"
    by (simp only: d_add_def fl_add.simps(1) fl_round.simps(1) ex_sum)
  have p: "d_mul (Fin (5764607523034236 / 2 ^ 59)) (Fin (8336917989562993 / 2 ^ 127)) =
             Fin (5335627513320317 / 2 ^ 133)"
    by (simp only: d_mul_def fl_mul.simps(1) fl_round.simps(1) ex_prod)
  have r: "d_div (Fin (5335627513320317 / 2 ^ 133)) (Fin (5764607523034236 / 2 ^ 59)) =
             Fin (8336917989562994 / 2 ^ 127)"
  proof -
    have "(5764607523034236 / 2 ^ 59 :: real) \<noteq> 0" by simp
    then have "fl_div (Fin (5335627513320317 / 2 ^ 133)) (Fin (5764607523034236 / 2 ^ 59)) =
        Fin (5335627513320317 / 2 ^ 133 / (5764607523034236 / 2 ^ 59))"
      by (rule fl_div_Fin)
    then show ?thesis by (simp only: d_div_def fl_round.simps(1) ex_quot)
  qed
  have t: "d_sqrt (Fin (8336917989562994 / 2 ^ 127)) = Fin (8665580274997663 / 2 ^ 90)"
  proof -
    have "(0::real) \<le> 8336917989562994 / 2 ^ 127" by simp
    then have "fl_sqrt (Fin (8336917989562994 / 2 ^ 127)) = Fin (sqrt (8336917989562994 / 2 ^ 127))"
      by (rule fl_sqrt_Fin)
    then show ?thesis by (simp only: d_sqrt_def fl_round.simps(1) ex_sqrt)
  qed
  show ?thesis
    by (simp only: bayes_update_double_std a b q p r t)
qed

subsection \<open>The bound on the rounded standard deviation\<close>

text \<open>
  The six roundings of \<^verbatim>\<open>posterior_std\<close>, each within the factor \<open>1 \<plusminus> 2\<^sup>-\<^sup>5\<^sup>3\<close>, on real
  numbers.
\<close>

lemma shrink_chain:
  fixes s1 s2 a b p q r t :: real
  assumes pos: "0 < s1" "0 < b"
    and a: "0 < a" "a \<le> s1 * s1 * (1 + 1 / 2 ^ 53)"
    and q: "(a + b) * (1 - 1 / 2 ^ 53) \<le> q"
    and p: "p \<le> a * b * (1 + 1 / 2 ^ 53)"
    and r: "0 < r" "r \<le> p / q * (1 + 1 / 2 ^ 53)"
    and t: "0 < t" "t \<le> sqrt r * (1 + 1 / 2 ^ 53)"
  shows "t < s1 * (1 + 1 / 2 ^ 51)"
proof -
  let ?c0 = "1 - 1 / 2 ^ 53 :: real"
  let ?c1 = "1 + 1 / 2 ^ 53 :: real"
  have c: "0 < ?c0" "0 < ?c1" by simp_all
  have sp: "0 < a + b" using a(1) pos(2) by simp
  have qp: "0 < q" using q sp c(1) by (smt (verit) mult_pos_pos)
  have "p / q \<le> a * b * ?c1 / q" by (rule divide_right_mono[OF p]) (use qp in linarith)
  also have "\<dots> \<le> a * b * ?c1 / ((a + b) * ?c0)"
    using q sp c a(1) pos(2) by (intro divide_left_mono) (simp_all add: mult_pos_pos)
  also have "\<dots> = a * b / (a + b) * (?c1 / ?c0)" by simp
  finally have pq: "p / q \<le> a * b / (a + b) * (?c1 / ?c0)" .
  have "a * b < a * (a + b)" using a(1) pos(2) by (simp add: algebra_simps)
  then have x: "a * b / (a + b) < a" using sp by (simp add: pos_divide_less_eq mult.commute)
  have k: "0 < ?c1 / ?c0" by simp
  have "p / q < a * (?c1 / ?c0)"
    using pq mult_strict_right_mono[OF x k] by linarith
  then have "p / q * ?c1 < a * (?c1 / ?c0) * ?c1" by (simp only: mult_strict_right_mono[OF _ c(2)])
  with r(2) have r1: "r < a * (?c1 / ?c0) * ?c1" by linarith
  have "a * ((?c1 / ?c0) * ?c1) \<le> s1 * s1 * ?c1 * ((?c1 / ?c0) * ?c1)"
    using a(2) by (intro mult_right_mono) simp_all
  with r1 have r2: "r < s1 * s1 * (?c1 * ((?c1 / ?c0) * ?c1))" by (simp add: mult.assoc)
  have sq: "0 \<le> sqrt r" using r(1) by simp
  have "t * t \<le> (sqrt r * ?c1) * (sqrt r * ?c1)"
    using t sq by (intro mult_mono) simp_all
  also have "\<dots> = r * (?c1 * ?c1)" using r(1) by (simp add: algebra_simps)
  also have "\<dots> < s1 * s1 * (?c1 * ((?c1 / ?c0) * ?c1)) * (?c1 * ?c1)"
    using r2 by (intro mult_strict_right_mono) simp_all
  also have "\<dots> = s1 * s1 * (?c1 * ((?c1 / ?c0) * ?c1) * (?c1 * ?c1))" by (simp add: mult.assoc)
  also have "\<dots> \<le> s1 * s1 * ((1 + 1 / 2 ^ 51) * (1 + 1 / 2 ^ 51))"
    by (intro mult_left_mono) simp_all
  also have "\<dots> = (s1 * (1 + 1 / 2 ^ 51)) * (s1 * (1 + 1 / 2 ^ 51))" by (simp add: algebra_simps)
  finally have "t\<^sup>2 < (s1 * (1 + 1 / 2 ^ 51))\<^sup>2" by (simp add: power2_eq_square)
  moreover have "0 \<le> s1 * (1 + 1 / 2 ^ 51)" using pos(1) by simp
  ultimately show ?thesis by (rule power2_less_imp_less)
qed

lemma square_range:
  fixes s :: real
  assumes "1 / 2 ^ 160 \<le> s" "s \<le> 2 ^ 160"
  shows "1 / 2 ^ 320 \<le> s * s" "s * s \<le> 2 ^ 320"
proof -
  have "(1 / 2 ^ 160) * (1 / 2 ^ 160) \<le> s * s"
    using assms(1) by (intro mult_mono) simp_all
  then show "1 / 2 ^ 320 \<le> s * s" by simp
  have "0 \<le> s" using assms(1) by (smt (verit) divide_nonneg_nonneg zero_le_power)
  then have "s * s \<le> 2 ^ 160 * 2 ^ 160"
    using assms(2) by (intro mult_mono) simp_all
  then show "s * s \<le> 2 ^ 320" by simp
qed

lemma posterior_std_double_bound:
  assumes s1: "1 / 2 ^ 160 \<le> s1" "s1 \<le> 2 ^ 160"
    and s2: "1 / 2 ^ 160 \<le> s2" "s2 \<le> 2 ^ 160"
  shows "\<exists>t. d_sqrt (d_div (d_mul (d_sq (Fin s1)) (d_sq (Fin s2)))
                             (d_add (d_sq (Fin s1)) (d_sq (Fin s2)))) = Fin t \<and>
             0 < t \<and> t < s1 * (1 + 1 / 2 ^ 51)"
proof -
  have s1p: "0 < s1" using s1(1) by (smt (verit) divide_pos_pos zero_less_power)
  note A = square_range[OF s1]
  note B = square_range[OF s2]
  have "\<exists>r. to_double (s1 * s1) = Fin r \<and> s1 * s1 * (1 - 1 / 2 ^ 53) \<le> r \<and>
            r \<le> s1 * s1 * (1 + 1 / 2 ^ 53) \<and> 1 / 2 ^ 320 / 2 \<le> r \<and> r \<le> 2 * 2 ^ 320"
    by (rule to_double_range[OF _ A]) simp_all
  then obtain a where a: "to_double (s1 * s1) = Fin a" "a \<le> s1 * s1 * (1 + 1 / 2 ^ 53)"
    "1 / 2 ^ 321 \<le> a" "a \<le> 2 ^ 321" by auto
  have "\<exists>r. to_double (s2 * s2) = Fin r \<and> s2 * s2 * (1 - 1 / 2 ^ 53) \<le> r \<and>
            r \<le> s2 * s2 * (1 + 1 / 2 ^ 53) \<and> 1 / 2 ^ 320 / 2 \<le> r \<and> r \<le> 2 * 2 ^ 320"
    by (rule to_double_range[OF _ B]) simp_all
  then obtain b where b: "to_double (s2 * s2) = Fin b"
    "1 / 2 ^ 321 \<le> b" "b \<le> 2 ^ 321" by auto
  have ap: "0 < a" using a(3) by (smt (verit) divide_pos_pos zero_less_power)
  have bp: "0 < b" using b(2) by (smt (verit) divide_pos_pos zero_less_power)
  have S: "1 / 2 ^ 320 \<le> a + b" "a + b \<le> 2 ^ 322"
    using a(3,4) b(2,3) by simp_all
  have "\<exists>r. to_double (a + b) = Fin r \<and> (a + b) * (1 - 1 / 2 ^ 53) \<le> r \<and>
            r \<le> (a + b) * (1 + 1 / 2 ^ 53) \<and> 1 / 2 ^ 320 / 2 \<le> r \<and> r \<le> 2 * 2 ^ 322"
    by (rule to_double_range[OF _ S]) simp_all
  then obtain q where q: "to_double (a + b) = Fin q" "(a + b) * (1 - 1 / 2 ^ 53) \<le> q"
    "1 / 2 ^ 321 \<le> q" "q \<le> 2 ^ 323" by auto
  have qp: "0 < q" using q(3) by (smt (verit) divide_pos_pos zero_less_power)
  have P: "1 / 2 ^ 642 \<le> a * b" "a * b \<le> 2 ^ 642"
  proof -
    have "(1 / 2 ^ 321) * (1 / 2 ^ 321) \<le> a * b"
      using a(3) b(2) by (intro mult_mono) simp_all
    then show "1 / 2 ^ 642 \<le> a * b" by simp
    have "a * b \<le> 2 ^ 321 * 2 ^ 321"
      using a(4) b(3) ap bp by (intro mult_mono) simp_all
    then show "a * b \<le> 2 ^ 642" by simp
  qed
  have "\<exists>r. to_double (a * b) = Fin r \<and> a * b * (1 - 1 / 2 ^ 53) \<le> r \<and>
            r \<le> a * b * (1 + 1 / 2 ^ 53) \<and> 1 / 2 ^ 642 / 2 \<le> r \<and> r \<le> 2 * 2 ^ 642"
    by (rule to_double_range[OF _ P]) simp_all
  then obtain p where p: "to_double (a * b) = Fin p" "p \<le> a * b * (1 + 1 / 2 ^ 53)"
    "1 / 2 ^ 643 \<le> p" "p \<le> 2 ^ 643" by auto
  have pp: "0 < p" using p(3) by (smt (verit) divide_pos_pos zero_less_power)
  have R: "1 / 2 ^ 966 \<le> p / q" "p / q \<le> 2 ^ 964"
  proof -
    have "(1 / 2 ^ 643) / 2 ^ 323 \<le> p / q"
      using p(3) q(4) qp pp by (intro frac_le) simp_all
    then show "1 / 2 ^ 966 \<le> p / q" by simp
    have "p / q \<le> 2 ^ 643 / (1 / 2 ^ 321)"
      using p(4) q(3) pp by (intro frac_le) simp_all
    then show "p / q \<le> 2 ^ 964" by simp
  qed
  have "\<exists>x. to_double (p / q) = Fin x \<and> p / q * (1 - 1 / 2 ^ 53) \<le> x \<and>
            x \<le> p / q * (1 + 1 / 2 ^ 53) \<and> 1 / 2 ^ 966 / 2 \<le> x \<and> x \<le> 2 * 2 ^ 964"
    by (rule to_double_range[OF _ R]) simp_all
  then obtain r where r: "to_double (p / q) = Fin r" "r \<le> p / q * (1 + 1 / 2 ^ 53)"
    "1 / 2 ^ 967 \<le> r" "r \<le> 2 ^ 965" by auto
  have rp: "0 < r" using r(3) by (smt (verit) divide_pos_pos zero_less_power)
  have T: "1 / 2 ^ 484 \<le> sqrt r" "sqrt r \<le> 2 ^ 483"
  proof -
    have "(1 / 2 ^ 484 :: real)\<^sup>2 \<le> r" using r(3) by (simp add: power2_eq_square)
    then show "1 / 2 ^ 484 \<le> sqrt r" by (rule real_le_rsqrt)
    have "r \<le> (2 ^ 483 :: real)\<^sup>2" using r(4) by (simp add: power2_eq_square)
    then show "sqrt r \<le> 2 ^ 483" by (intro real_le_lsqrt) simp_all
  qed
  have "\<exists>x. to_double (sqrt r) = Fin x \<and> sqrt r * (1 - 1 / 2 ^ 53) \<le> x \<and>
            x \<le> sqrt r * (1 + 1 / 2 ^ 53) \<and> 1 / 2 ^ 484 / 2 \<le> x \<and> x \<le> 2 * 2 ^ 483"
    by (rule to_double_range[OF _ T]) simp_all
  then obtain t where t: "to_double (sqrt r) = Fin t" "t \<le> sqrt r * (1 + 1 / 2 ^ 53)"
    "1 / 2 ^ 485 \<le> t" by auto
  have tp: "0 < t" using t(3) by (smt (verit) divide_pos_pos zero_less_power)
  have "d_sqrt (d_div (d_mul (d_sq (Fin s1)) (d_sq (Fin s2)))
                       (d_add (d_sq (Fin s1)) (d_sq (Fin s2)))) = Fin t"
    using qp rp
    by (simp only: d_sq_Fin a(1) b(1) d_mul_Fin d_add_Fin p(1) q(1)
          d_div_Fin[OF less_imp_neq[OF qp, symmetric]] r(1) d_sqrt_Fin[OF less_imp_le[OF rp]] t(1))
  moreover have "t < s1 * (1 + 1 / 2 ^ 51)"
    by (rule shrink_chain[OF s1p bp ap a(2) q(2) p(2) rp r(2) tp t(2)])
  ultimately show ?thesis using tp by blast
qed

text \<open>
  The bounds on the standard deviations are needed.  The square of a positive standard
  deviation below about \<open>1.5e-162\<close> rounds to zero, and then \<^verbatim>\<open>posterior_std\<close> is the
  quotient of two zeros.
\<close>

lemma bayes_update_double_underflow:
  "snd (bayes_update_double z1 (Fin (1 / 2 ^ 600)) z2 (Fin (1 / 2 ^ 600))) = NaN"
proof -
  have "to_double (1 / 2 ^ 600 * (1 / 2 ^ 600)) = Fin 0"
    by (rule to_double_tiny) simp_all
  then have a: "d_sq (Fin (1 / 2 ^ 600)) = Fin 0" by (simp only: d_sq_Fin)
  show ?thesis
    unfolding bayes_update_double_std a
    by (simp add: d_mul_def d_add_def d_div_def d_sqrt_def to_double_zero)
qed

subsection \<open>The claim\<close>

text \<open>
  C6 as stated does not hold of the program: the returned \<^verbatim>\<open>posterior_std\<close> is not always
  below both input standard deviations, and a call of \<^verbatim>\<open>_update_state_with_stimulus\<close> can
  raise \<^verbatim>\<open>target_std\<close>.  With the stimulus standard deviation \<^verbatim>\<open>0.1\<close> and a belief whose
  standard deviation is \<^verbatim>\<open>7e-12\<close>, both positive binary64 numbers, the fusion returns
  \<open>8665580274997663 / 2\<^sup>9\<^sup>0\<close>, printed \<^verbatim>\<open>7.000000000000001e-12\<close>, which is one unit in the
  last place above the belief's \<open>8665580274997662 / 2\<^sup>9\<^sup>0\<close>.
\<close>

theorem posterior_std_above_belief_std:
  "fl_round (Fin double_0_1) = Fin double_0_1 \<and>
   fl_round (Fin double_7em12) = Fin double_7em12 \<and>
   0 < double_0_1 \<and> 0 < double_7em12 \<and>
   i_target_std sharp_belief = Fin double_7em12 \<and>
   snd (bayes_update_double (Fin 0, Fin 0) (Fin double_0_1) (i_target sharp_belief)
          (i_target_std sharp_belief)) = Fin (8665580274997663 / 2 ^ 90) \<and>
   i_target_std (update_state_with_stimulus_double sharp_belief (Fin 0, Fin 0) (Fin double_0_1)) =
     Fin (8665580274997663 / 2 ^ 90) \<and>
   double_7em12 < 8665580274997663 / 2 ^ 90"
proof -
  have s: "i_target sharp_belief = (Fin 0, Fin 0)" "i_target_std sharp_belief = Fin double_7em12"
    by (simp_all add: sharp_belief_def)
  have "fl_round (Fin double_0_1) = Fin double_0_1" by (simp only: fl_round.simps(1) ex_in1)
  moreover have "fl_round (Fin double_7em12) = Fin double_7em12"
    by (simp only: fl_round.simps(1) ex_in2)
  moreover have "0 < double_0_1" "0 < double_7em12"
    by (simp_all add: double_0_1_def double_7em12_def)
  moreover have "snd (bayes_update_double (Fin 0, Fin 0) (Fin double_0_1) (i_target sharp_belief)
          (i_target_std sharp_belief)) = Fin (8665580274997663 / 2 ^ 90)"
    by (simp only: s ex_posterior_std)
  moreover have "i_target_std (update_state_with_stimulus_double sharp_belief (Fin 0, Fin 0)
        (Fin double_0_1)) = Fin (8665580274997663 / 2 ^ 90)"
    by (simp only: update_state_with_stimulus_double_std s ex_posterior_std)
  moreover have "double_7em12 < 8665580274997663 / 2 ^ 90"
    by (simp add: double_7em12_def)
  ultimately show ?thesis using s(2) by blast
qed

text \<open>
  C6, amended.  In double precision, for all means and for standard deviations between
  \<open>2\<^sup>-\<^sup>1\<^sup>6\<^sup>0\<close> and \<open>2\<^sup>1\<^sup>6\<^sup>0\<close>, \<^verbatim>\<open>bayes_update\<close> gives the same result when the two pairs
  are exchanged, and its \<^verbatim>\<open>posterior_std\<close> is a positive finite number that is below
  each of the two input standard deviations multiplied by \<open>1 + 2\<^sup>-\<^sup>5\<^sup>1\<close>; it is the
  \<^verbatim>\<open>target_std\<close> that \<^verbatim>\<open>_update_state_with_stimulus\<close> stores, so one call raises
  \<^verbatim>\<open>target_std\<close> by less than that factor.  (Only the exact formula is strictly below
  both.)
\<close>

theorem bayes_update_double_commutes_and_bound:
  assumes "1 / 2 ^ 160 \<le> s1" "s1 \<le> 2 ^ 160" "1 / 2 ^ 160 \<le> s2" "s2 \<le> 2 ^ 160"
  shows "bayes_update_double z1 (Fin s1) z2 (Fin s2) = bayes_update_double z2 (Fin s2) z1 (Fin s1) \<and>
         (\<exists>p. snd (bayes_update_double z1 (Fin s1) z2 (Fin s2)) = Fin p \<and> 0 < p \<and>
                p < s1 * (1 + 1 / 2 ^ 51) \<and> p < s2 * (1 + 1 / 2 ^ 51) \<and>
                i_target_std (update_state_with_stimulus_double
                                (s\<lparr>i_target := z2, i_target_std := Fin s2\<rparr>) z1 (Fin s1)) = Fin p)"
proof -
  have c: "bayes_update_double z1 (Fin s1) z2 (Fin s2) = bayes_update_double z2 (Fin s2) z1 (Fin s1)"
    by (rule bayes_update_double_commute)
  obtain p where p: "snd (bayes_update_double z1 (Fin s1) z2 (Fin s2)) = Fin p" "0 < p"
      "p < s1 * (1 + 1 / 2 ^ 51)"
    using posterior_std_double_bound[OF assms] unfolding bayes_update_double_std by blast
  obtain p' where p': "snd (bayes_update_double z2 (Fin s2) z1 (Fin s1)) = Fin p'"
      "p' < s2 * (1 + 1 / 2 ^ 51)"
    using posterior_std_double_bound[OF assms(3,4,1,2)] unfolding bayes_update_double_std by blast
  have "p' = p" using p(1) p'(1) c by simp
  then have b: "p < s2 * (1 + 1 / 2 ^ 51)" using p'(2) by simp
  have "i_target_std (update_state_with_stimulus_double
          (s\<lparr>i_target := z2, i_target_std := Fin s2\<rparr>) z1 (Fin s1)) = Fin p"
    using p(1) by (simp add: update_state_with_stimulus_double_std)
  with c p b show ?thesis by blast
qed

text \<open>
  The standard deviations \<^verbatim>\<open>0.1\<close> and \<^verbatim>\<open>7e-12\<close>.
\<close>

theorem bayes_update_double_commutes_and_bound_witness:
  "bayes_update_double (Fin 0, Fin 0) (Fin double_0_1) (Fin 0, Fin 0) (Fin double_7em12) =
     bayes_update_double (Fin 0, Fin 0) (Fin double_7em12) (Fin 0, Fin 0) (Fin double_0_1) \<and>
   (\<exists>p. snd (bayes_update_double (Fin 0, Fin 0) (Fin double_0_1) (Fin 0, Fin 0)
               (Fin double_7em12)) = Fin p \<and> 0 < p \<and>
         p < double_0_1 * (1 + 1 / 2 ^ 51) \<and> p < double_7em12 * (1 + 1 / 2 ^ 51) \<and>
         i_target_std (update_state_with_stimulus_double
                         (sharp_belief\<lparr>i_target := (Fin 0, Fin 0), i_target_std := Fin double_7em12\<rparr>)
                         (Fin 0, Fin 0) (Fin double_0_1)) = Fin p)"
proof -
  have "1 / 2 ^ 160 \<le> double_0_1" "double_0_1 \<le> 2 ^ 160"
    "1 / 2 ^ 160 \<le> double_7em12" "double_7em12 \<le> 2 ^ 160"
    by (simp_all add: double_0_1_def double_7em12_def)
  then show ?thesis by (rule bayes_update_double_commutes_and_bound)
qed

section \<open>The task\<close>

text \<open>
  C7. \<^verbatim>\<open>external_env\<close> writes the action, as it is, into the external fixation, leaves
  the target and the width alone, and returns true exactly when the distance between the
  new fixation and the target is below half the width.
\<close>

theorem external_env_effect:
  "fst (external_env ext a) = ext\<lparr>e_fixation := a\<rparr> \<and>
   e_fixation (fst (external_env ext a)) = a \<and>
   e_target (fst (external_env ext a)) = e_target ext \<and>
   e_width (fst (external_env ext a)) = e_width ext \<and>
   snd (external_env ext a) =
     fl_lt (get_distance (e_fixation (fst (external_env ext a)))
                         (e_target (fst (external_env ext a))))
           (fl_div (e_width (fst (external_env ext a))) (Fin 2))"
  by (simp add: external_env_def Let_def)

section \<open>The step cap\<close>

lemma GazeModel_run_count:
  assumes "GazeModel_run m st ins = Inr outs"
  shows "length outs = length ins \<and>
         (\<forall>i<length outs.
            n_step (fst (outs ! i)) = n_step st + int i + 1 \<and>
            done_of (outs ! i) =
              (max_steps m < n_step st + int i + 1 \<or> goal_achieved (external (fst (outs ! i)))))"
  using assms
proof (induction ins arbitrary: st outs)
  case Nil
  then show ?case by simp
next
  case (Cons x ins)
  obtain a zm zs where x: "x = (a, zm, zs)" by (cases x) auto
  from Cons.prems x obtain st1 ob1 r1 d1 n1 outs1 where
    st: "GazeModel_step m st a zm zs = Inr (st1, ob1, r1, d1, n1)"
    and rest: "GazeModel_run m st1 ins = Inr outs1"
    and outs: "outs = (st1, ob1, r1, d1, n1) # outs1"
    by (auto split: sum.splits)
  note hd = GazeModel_step_done[OF st]
  note ih = Cons.IH[OF rest]
  have len: "length outs = length (x # ins)" using ih outs by simp
  have "n_step (fst (outs ! i)) = n_step st + int i + 1 \<and>
        done_of (outs ! i) =
          (max_steps m < n_step st + int i + 1 \<or> goal_achieved (external (fst (outs ! i))))"
    if "i < length outs" for i
  proof (cases i)
    case 0
    then show ?thesis using hd outs by (simp add: done_of_def)
  next
    case (Suc j)
    with that outs have "j < length outs1" by simp
    with ih have "n_step (fst (outs1 ! j)) = n_step st1 + int j + 1 \<and>
        done_of (outs1 ! j) =
          (max_steps m < n_step st1 + int j + 1 \<or> goal_achieved (external (fst (outs1 ! j))))"
      by blast
    then show ?thesis using Suc outs hd(1) by (simp add: add.assoc add.commute)
  qed
  with len show ?case by blast
qed

text \<open>
  C8. \<^verbatim>\<open>reset\<close> sets \<^verbatim>\<open>n_step\<close> to 0 and every call of \<^verbatim>\<open>step\<close> adds exactly 1.  A
  sequence of calls after a reset returns (no call raises) when the two noise weights are
  finite and not negative.  In such a sequence, a call after which the task's termination
  condition does not hold returns \<^verbatim>\<open>done = False\<close> as long as it is one of the first
  \<^verbatim>\<open>max_steps\<close> calls, and every later call, the one numbered \<^verbatim>\<open>max_steps + 1\<close> first,
  returns \<^verbatim>\<open>done = True\<close> whatever the distance.  The cap is 500 unless it is configured.
\<close>

theorem truncation_after_max_steps:
  assumes "GazeModel_reset m z = Inr (st0, ob0)"
  shows "n_step st0 = 0 \<and> max_steps GazeModel_init = 500 \<and>
         (oculamotor_noise_weight (GT m) = Fin wo \<and> 0 \<le> wo \<and>
          stimulus_noise_weight (GT m) = Fin ws \<and> 0 \<le> ws \<longrightarrow>
            (\<exists>outs. GazeModel_run m st0 ins = Inr outs)) \<and>
         (\<forall>outs. GazeModel_run m st0 ins = Inr outs \<longrightarrow>
            length outs = length ins \<and>
            (\<forall>i<length outs.
               n_step (fst (outs ! i)) = int i + 1 \<and>
               (\<not> goal_achieved (external (fst (outs ! i))) \<longrightarrow>
                  done_of (outs ! i) = (max_steps m < int i + 1)) \<and>
               (max_steps m < int i + 1 \<longrightarrow> done_of (outs ! i))))"
proof -
  from assms have z: "n_step st0 = 0"
    by (auto simp: GazeModel_reset_def Let_def split: sum.splits prod.splits)
  have t: "\<exists>outs. GazeModel_run m st0 ins = Inr outs"
    if "oculamotor_noise_weight (GT m) = Fin wo" "0 \<le> wo"
      "stimulus_noise_weight (GT m) = Fin ws" "0 \<le> ws"
    using GazeModel_run_total[OF that] .
  have c: "length outs = length ins \<and>
            (\<forall>i<length outs.
               n_step (fst (outs ! i)) = int i + 1 \<and>
               (\<not> goal_achieved (external (fst (outs ! i))) \<longrightarrow>
                  done_of (outs ! i) = (max_steps m < int i + 1)) \<and>
               (max_steps m < int i + 1 \<longrightarrow> done_of (outs ! i)))"
    if "GazeModel_run m st0 ins = Inr outs" for outs
    using GazeModel_run_count[OF that] z by auto
  from z t c show ?thesis by (auto simp: GazeModel_init_def)
qed

text \<open>
  With a cap of 1 and two calls that stay at distance 1 from the target, the first call
  returns false and the second true.
\<close>

theorem truncation_after_max_steps_witness:
  "\<exists>st0 ob0 o1 o2.
     GazeModel_reset (GazeModel_init\<lparr>max_steps := 1\<rparr>) (Fin 0, Fin 0) = Inr (st0, ob0) \<and>
     GazeModel_run (GazeModel_init\<lparr>max_steps := 1\<rparr>) st0
       [((Fin 0.6, Fin 0.8), (Fin 0, Fin 0), (Fin 0, Fin 0)),
        ((Fin 0.6, Fin 0.8), (Fin 0, Fin 0), (Fin 0, Fin 0))] = Inr [o1, o2] \<and>
     \<not> goal_achieved (external (fst o1)) \<and> \<not> goal_achieved (external (fst o2)) \<and>
     \<not> done_of o1 \<and> done_of o2 \<and> n_step (fst o1) = 1 \<and> n_step (fst o2) = 2"
proof -
  let ?m = "GazeModel_init\<lparr>max_steps := 1\<rparr>"
  let ?ins = "[((Fin 0.6, Fin 0.8), (Fin 0, Fin 0), (Fin 0, Fin 0)),
        ((Fin 0.6, Fin 0.8), (Fin 0, Fin 0), (Fin 0, Fin 0))]"
  obtain st0 ob0 where r: "GazeModel_reset ?m (Fin 0, Fin 0) = Inr (st0, ob0)"
    and st0: "st0 = \<lparr>internal = fst (reset_internal_env \<lparr>e_fixation = (Fin (- 1), Fin (- 1)),
                 e_target = (Fin 0, Fin 0), e_width = Fin 0.15\<rparr>),
        external = \<lparr>e_fixation = (Fin (- 1), Fin (- 1)), e_target = (Fin 0, Fin 0),
                 e_width = Fin 0.15\<rparr>,
        n_step = 0\<rparr>"
    by (simp add: model_defs)
  note T = truncation_after_max_steps[OF r, of "0.01" "0.09" ?ins]
  have w: "oculamotor_noise_weight (GT ?m) = Fin 0.01 \<and> (0::real) \<le> 0.01 \<and>
          stimulus_noise_weight (GT ?m) = Fin 0.09 \<and> (0::real) \<le> 0.09"
    by (simp add: GazeModel_init_def GazeTheory_init_def)
  from T w obtain outs where run: "GazeModel_run ?m st0 ?ins = Inr outs" by blast
  from T run have len: "length outs = 2"
    and a: "\<forall>i<length outs.
               n_step (fst (outs ! i)) = int i + 1 \<and>
               (\<not> goal_achieved (external (fst (outs ! i))) \<longrightarrow>
                  done_of (outs ! i) = (max_steps ?m < int i + 1)) \<and>
               (max_steps ?m < int i + 1 \<longrightarrow> done_of (outs ! i))"
    by auto
  from len obtain o1 o2 where outs: "outs = [o1, o2]"
    by (cases outs; cases "tl outs") auto
  have "\<exists>x1 x2. GazeModel_run ?m st0 ?ins = Inr [x1, x2] \<and>
          \<not> goal_achieved (external (fst x1)) \<and> \<not> goal_achieved (external (fst x2))"
    unfolding st0 by (simp add: model_defs goal_achieved_def)
  with run outs have g1: "\<not> goal_achieved (external (fst o1))"
    and g2: "\<not> goal_achieved (external (fst o2))" by auto
  from a[rule_format, of 0] g1 outs have d1: "\<not> done_of o1" "n_step (fst o1) = 1"
    by simp_all
  from a[rule_format, of 1] outs have d2: "done_of o2" "n_step (fst o2) = 2" by simp_all
  from r run outs g1 g2 d1 d2 show ?thesis by blast
qed

section \<open>The degenerate fusion\<close>

text \<open>
  C10. The division of zero by zero in the fusion can be reached through the adapter's
  \<^verbatim>\<open>step\<close>.  When the response of a call lands exactly on the external target, the
  eccentricity and with it the standard deviation of the stimulus are 0, and the belief's
  uncertainty becomes exactly 0.  When the response of the next call lands on the target
  again, \<^verbatim>\<open>bayes_update\<close> gets two zero standard deviations and its result is \<open>NaN\<close>
  throughout; the call does not raise, it returns an observation and a reward that are
  \<open>NaN\<close>.  (The response depends on the internal state through the fixation and the action
  only, and the first call leaves the fixation alone, so the second response can be given
  on the state before the first call.)
\<close>

theorem degenerate_fusion_reachable:
  assumes "stimulus_noise_weight (GT m) = Fin w"
    and "e_target (external st) = (Fin tx, Fin ty)"
    and "i_target (internal st) = (Fin bx, Fin by)"
    and "i_target_std (internal st) = Fin sd" and "sd \<noteq> 0"
    and "get_response (GT m) (update_state_with_action (internal st) a1) zm1 =
           Inr (e_target (external st))"
    and "get_response (GT m) (update_state_with_action (internal st) a2) zm2 =
           Inr (e_target (external st))"
  shows "\<exists>st1 r1 d1 n1 st2 d2 n2.
           GazeModel_step m st a1 zm1 (Fin p1, Fin q1) =
             Inr (st1, (Fin tx, Fin ty, Fin 0), r1, d1, n1) \<and>
           e_fixation (external st1) = e_target (external st1) \<and>
           i_target_std (internal st1) = Fin 0 \<and>
           get_response (GT m) (update_state_with_action (internal st1) a2) zm2 =
             Inr (e_target (external st1)) \<and>
           bayes_update (Fin tx, Fin ty) (Fin 0) (i_target (internal st1))
             (i_target_std (internal st1)) = ((NaN, NaN), NaN) \<and>
           GazeModel_step m st1 a2 zm2 (Fin p2, Fin q2) =
             Inr (st2, (NaN, NaN, NaN), NaN, d2, n2) \<and>
           i_target_std (internal st2) = NaN"
proof -
  let ?t = "(Fin tx, Fin ty)"
  let ?s1 = "update_state_with_stimulus (update_state_with_action (internal st) a1) ?t (Fin 0)"
  let ?e1 = "(external st)\<lparr>e_fixation := ?t\<rparr>"
  let ?st1 = "\<lparr>internal = ?s1, external = ?e1, n_step = n_step st + 1\<rparr>"
  have b1: "i_target ?s1 = ?t" "i_target_std ?s1 = Fin 0" "i_fixation ?s1 = i_fixation (internal st)"
    using assms(3,4,5)
    by (simp_all add: update_state_with_stimulus_def update_state_with_action_def
        bayes_update_exact_stimulus)
  have o1: "get_obs ?s1 = (Fin tx, Fin ty, Fin 0)" using b1 by (simp add: get_obs_def)
  have s1: "step (GT m) (internal st) (external st) a1 zm1 (Fin p1, Fin q1) =
              Inr (?s1, ?e1, (Fin tx, Fin ty, Fin 0), get_reward ?s1, goal_achieved ?e1)"
    using step_landing[OF assms(6,1,2), of p1 q1] o1 by simp
  have m1: "\<exists>d1. GazeModel_step m st a1 zm1 (Fin p1, Fin q1) =
              Inr (?st1, (Fin tx, Fin ty, Fin 0), get_reward ?s1, d1, get_info m ?st1)"
    by (simp add: GazeModel_step_def s1 Let_def)
  have r2: "get_response (GT m) (update_state_with_action ?s1 a2) zm2 = Inr (e_target ?e1)"
    using assms(7,2) get_response_fixation[OF b1(3), of "GT m" a2 zm2] by simp
  let ?s2 = "update_state_with_stimulus (update_state_with_action ?s1 a2) ?t (Fin 0)"
  let ?st2 = "\<lparr>internal = ?s2, external = ?e1, n_step = n_step st + 1 + 1\<rparr>"
  have b2: "i_target ?s2 = (NaN, NaN)" "i_target_std ?s2 = NaN"
    using b1(1,2)
    by (simp_all add: update_state_with_stimulus_def update_state_with_action_def
        bayes_update_both_zero)
  have o2: "get_obs ?s2 = (NaN, NaN, NaN)" "get_reward ?s2 = NaN"
    using b2 by (simp_all add: get_obs_def get_reward_NaN)
  have t1: "e_target ?e1 = ?t" using assms(2) by simp
  have s2: "step (GT m) ?s1 ?e1 a2 zm2 (Fin p2, Fin q2) =
              Inr (?s2, ?e1, (NaN, NaN, NaN), NaN, goal_achieved ?e1)"
    using step_landing[OF r2 assms(1) t1, of p2 q2] o2 by simp
  have m2: "\<exists>d2. GazeModel_step m ?st1 a2 zm2 (Fin p2, Fin q2) =
              Inr (?st2, (NaN, NaN, NaN), NaN, d2, get_info m ?st2)"
    by (simp add: GazeModel_step_def s2 Let_def)
  have z: "bayes_update ?t (Fin 0) (i_target (internal ?st1)) (i_target_std (internal ?st1)) =
             ((NaN, NaN), NaN)"
    using b1 by (simp add: bayes_update_both_zero)
  have f: "e_fixation (external ?st1) = e_target (external ?st1)" using assms(2) by simp
  have i1: "i_target_std (internal ?st1) = Fin 0" using b1 by simp
  have i2: "i_target_std (internal ?st2) = NaN" using b2 by simp
  have r2': "get_response (GT m) (update_state_with_action (internal ?st1) a2) zm2 =
             Inr (e_target (external ?st1))" using r2 by simp
  from m1 m2 f i1 i2 z r2' show ?thesis by blast
qed

text \<open>
  From a reset that puts the target on \<open>(-0.4, -0.2)\<close>, two calls that aim at the target
  while the motor noise draws are zero.
\<close>

theorem degenerate_fusion_reachable_witness:
  "\<exists>st0 st1 r1 d1 n1 st2 d2 n2.
     GazeModel_reset GazeModel_init (Fin (- (4 / 3)), Fin (- (2 / 3))) =
       Inr (st0, (Fin 0, Fin 0, Fin 0.1)) \<and>
     e_target (external st0) = (Fin (- 0.4), Fin (- 0.2)) \<and>
     GazeModel_step GazeModel_init st0 (Fin (- 0.4), Fin (- 0.2)) (Fin 0, Fin 0) (Fin 1, Fin 2) =
       Inr (st1, (Fin (- 0.4), Fin (- 0.2), Fin 0), r1, d1, n1) \<and>
     GazeModel_step GazeModel_init st1 (Fin (- 0.4), Fin (- 0.2)) (Fin 0, Fin 0) (Fin 1, Fin 2) =
       Inr (st2, (NaN, NaN, NaN), NaN, d2, n2)"
proof -
  let ?m = GazeModel_init
  let ?t = "(Fin (- 0.4), Fin (- 0.2))"
  let ?ext0 = "\<lparr>e_fixation = (Fin (- 1), Fin (- 1)), e_target = ?t, e_width = Fin 0.15\<rparr>"
  let ?st0 = "\<lparr>internal = fst (reset_internal_env ?ext0), external = ?ext0, n_step = 0\<rparr>"
  have r: "GazeModel_reset ?m (Fin (- (4 / 3)), Fin (- (2 / 3))) =
       Inr (?st0, (Fin 0, Fin 0, Fin 0.1))"
    by (simp add: model_defs)
  have w: "stimulus_noise_weight (GT ?m) = Fin 0.09"
    by (simp add: GazeModel_init_def GazeTheory_init_def)
  have t: "e_target (external ?st0) = ?t"
    and b: "i_target (internal ?st0) = (Fin 0, Fin 0)"
    and sd: "i_target_std (internal ?st0) = Fin 0.1" "(0.1::real) \<noteq> 0"
    by (simp_all add: reset_internal_env_def Let_def)
  have l: "get_response (GT ?m) (update_state_with_action (internal ?st0) ?t) (Fin 0, Fin 0) =
             Inr (e_target (external ?st0))"
    by (simp add: model_defs)
  from degenerate_fusion_reachable[OF w t b sd l l, of 1 2 1 2] r t
  show ?thesis by (simp only:) blast
qed

section \<open>Stepping toward the target without noise\<close>

lemma run_steps_NaN_std:
  assumes "run_steps th s ext ins = Inr outs" and "i_target_std s = NaN"
    and "out \<in> set outs"
  shows "reward_of out = NaN"
  using assms
proof (induction ins arbitrary: s ext outs)
  case Nil
  then show ?case by simp
next
  case (Cons x ins)
  obtain a zm zs where x: "x = (a, zm, zs)" by (cases x) auto
  from Cons.prems(1) x obtain s1 ext1 ob1 r1 d1 outs1 where
    st: "step th s ext a zm zs = Inr (s1, ext1, ob1, r1, d1)"
    and rest: "run_steps th s1 ext1 ins = Inr outs1"
    and outs: "outs = (s1, ext1, ob1, r1, d1) # outs1"
    by (auto split: sum.splits)
  note n = step_NaN_std[OF st Cons.prems(2)]
  from Cons.prems(3) outs consider "out = (s1, ext1, ob1, r1, d1)" | "out \<in> set outs1" by auto
  then show ?case
  proof cases
    case 1
    with n show ?thesis by (simp add: reward_of_def)
  next
    case 2
    from Cons.IH[OF rest n(1) 2] show ?thesis .
  qed
qed

lemma zero_noise_step1:
  "step zero_noise_theory
     (fst (reset_internal_env
        \<lparr>e_fixation = (Fin (- 1), Fin (- 1)), e_target = (Fin (- 0.4), Fin (- 0.2)),
           e_width = Fin 0.15\<rparr>))
     \<lparr>e_fixation = (Fin (- 1), Fin (- 1)), e_target = (Fin (- 0.4), Fin (- 0.2)),
        e_width = Fin 0.15\<rparr>
     (Fin (- 0.4), Fin (- 0.2)) (Fin 0, Fin 0) (Fin 0, Fin 0) =
   Inr (\<lparr>i_fixation = (Fin (- 1), Fin (- 1)), i_target = (Fin (- 0.4), Fin (- 0.2)),
           i_target_std = Fin 0, i_width = Fin 0.15, i_action = (Fin (- 0.4), Fin (- 0.2))\<rparr>,
        \<lparr>e_fixation = (Fin (- 0.4), Fin (- 0.2)), e_target = (Fin (- 0.4), Fin (- 0.2)),
           e_width = Fin 0.15\<rparr>,
        (Fin (- 0.4), Fin (- 0.2), Fin 0), Fin (- 1), True)"
  by (simp add: model_defs zero_noise_theory_def)

lemma zero_noise_step2:
  "step zero_noise_theory
     \<lparr>i_fixation = (Fin (- 1), Fin (- 1)), i_target = (Fin (- 0.4), Fin (- 0.2)),
           i_target_std = Fin 0, i_width = Fin 0.15, i_action = (Fin (- 0.4), Fin (- 0.2))\<rparr>
     \<lparr>e_fixation = (Fin (- 0.4), Fin (- 0.2)), e_target = (Fin (- 0.4), Fin (- 0.2)),
        e_width = Fin 0.15\<rparr>
     (Fin (- 0.4), Fin (- 0.2)) (Fin 0, Fin 0) (Fin 0, Fin 0) =
   Inr (\<lparr>i_fixation = (Fin (- 1), Fin (- 1)), i_target = (NaN, NaN),
           i_target_std = NaN, i_width = Fin 0.15, i_action = (Fin (- 0.4), Fin (- 0.2))\<rparr>,
        \<lparr>e_fixation = (Fin (- 0.4), Fin (- 0.2)), e_target = (Fin (- 0.4), Fin (- 0.2)),
           e_width = Fin 0.15\<rparr>,
        (NaN, NaN, NaN), NaN, True)"
  by (simp add: model_defs zero_noise_theory_def)

lemma zero_noise_no_reward:
  assumes "run_steps zero_noise_theory (fst (reset_internal_env ext_example)) ext_example
             (replicate n aim_at_target) = Inr outs"
    and "out \<in> set outs"
  shows "reward_of out = Fin (- 1) \<or> reward_of out = NaN"
proof (cases n)
  case 0
  with assms show ?thesis by simp
next
  case (Suc k)
  let ?s1 = "\<lparr>i_fixation = (Fin (- 1), Fin (- 1)), i_target = (Fin (- 0.4), Fin (- 0.2)),
           i_target_std = Fin 0, i_width = Fin 0.15, i_action = (Fin (- 0.4), Fin (- 0.2))\<rparr>"
  let ?e1 = "\<lparr>e_fixation = (Fin (- 0.4), Fin (- 0.2)), e_target = (Fin (- 0.4), Fin (- 0.2)),
           e_width = Fin 0.15\<rparr>"
  let ?o1 = "(?s1, ?e1, (Fin (- 0.4), Fin (- 0.2), Fin 0), Fin (- 1), True)"
  from assms(1) Suc obtain outs1 where
    r1: "run_steps zero_noise_theory ?s1 ?e1 (replicate k aim_at_target) = Inr outs1"
    and o: "outs = ?o1 # outs1"
    using zero_noise_step1
    by (auto simp: ext_example_def aim_at_target_def split: sum.splits)
  from assms(2) o consider "out = ?o1" | "out \<in> set outs1" by auto
  then show ?thesis
  proof cases
    case 1
    then show ?thesis by (simp add: reward_of_def)
  next
    case 2
    show ?thesis
    proof (cases k)
      case 0
      with r1 2 show ?thesis by simp
    next
      case (Suc j)
      let ?s2 = "\<lparr>i_fixation = (Fin (- 1), Fin (- 1)), i_target = (NaN, NaN),
           i_target_std = NaN, i_width = Fin 0.15, i_action = (Fin (- 0.4), Fin (- 0.2))\<rparr>"
      let ?o2 = "(?s2, ?e1, (NaN, NaN, NaN), NaN, True)"
      from r1 Suc obtain outs2 where
        r2: "run_steps zero_noise_theory ?s2 ?e1 (replicate j aim_at_target) = Inr outs2"
        and o2: "outs1 = ?o2 # outs2"
        using zero_noise_step2
        by (auto simp: aim_at_target_def split: sum.splits)
      from 2 o2 consider "out = ?o2" | "out \<in> set outs2" by auto
      then show ?thesis
      proof cases
        case 1
        then show ?thesis by (simp add: reward_of_def)
      next
        case 2
        have "i_target_std ?s2 = NaN" by simp
        from run_steps_NaN_std[OF r2 this 2] show ?thesis by simp
      qed
    qed
  qed
qed

text \<open>
  The claim C4 says that, with both noise weights zero, calling \<^verbatim>\<open>step\<close> again and
  again with the true target as the action makes the uncertainty decrease from call to
  call, drives the distance between the internal fixation and the belief toward 0, and
  ends in a call whose reward is 0.  With the target on \<open>(-0.4, -0.2)\<close> it fails: the first
  call returns the reward \<open>-1\<close> and the uncertainty 0, the second and the third return
  \<open>NaN\<close> for both (and \<open>NaN < 0\<close> is false, so the uncertainty has not decreased), and no
  number of calls returns the reward 0.
\<close>

theorem zero_noise_reward_counterexample:
  "run_steps zero_noise_theory (fst (reset_internal_env ext_example)) ext_example
     [aim_at_target, aim_at_target, aim_at_target] =
   Inr [(\<lparr>i_fixation = (Fin (- 1), Fin (- 1)), i_target = (Fin (- 0.4), Fin (- 0.2)),
            i_target_std = Fin 0, i_width = Fin 0.15, i_action = (Fin (- 0.4), Fin (- 0.2))\<rparr>,
         ext_example\<lparr>e_fixation := (Fin (- 0.4), Fin (- 0.2))\<rparr>,
         (Fin (- 0.4), Fin (- 0.2), Fin 0), Fin (- 1), True),
        (\<lparr>i_fixation = (Fin (- 1), Fin (- 1)), i_target = (NaN, NaN),
            i_target_std = NaN, i_width = Fin 0.15, i_action = (Fin (- 0.4), Fin (- 0.2))\<rparr>,
         ext_example\<lparr>e_fixation := (Fin (- 0.4), Fin (- 0.2))\<rparr>,
         (NaN, NaN, NaN), NaN, True),
        (\<lparr>i_fixation = (Fin (- 1), Fin (- 1)), i_target = (NaN, NaN),
            i_target_std = NaN, i_width = Fin 0.15, i_action = (Fin (- 0.4), Fin (- 0.2))\<rparr>,
         ext_example\<lparr>e_fixation := (Fin (- 0.4), Fin (- 0.2))\<rparr>,
         (NaN, NaN, NaN), NaN, True)] \<and>
   \<not> fl_lt NaN (Fin 0) \<and>
   \<not> (\<exists>n outs out.
         run_steps zero_noise_theory (fst (reset_internal_env ext_example)) ext_example
           (replicate n aim_at_target) = Inr outs \<and>
         out \<in> set outs \<and> reward_of out = Fin 0)"
proof -
  have a: "run_steps zero_noise_theory (fst (reset_internal_env ext_example)) ext_example
     [aim_at_target, aim_at_target, aim_at_target] =
   Inr [(\<lparr>i_fixation = (Fin (- 1), Fin (- 1)), i_target = (Fin (- 0.4), Fin (- 0.2)),
            i_target_std = Fin 0, i_width = Fin 0.15, i_action = (Fin (- 0.4), Fin (- 0.2))\<rparr>,
         ext_example\<lparr>e_fixation := (Fin (- 0.4), Fin (- 0.2))\<rparr>,
         (Fin (- 0.4), Fin (- 0.2), Fin 0), Fin (- 1), True),
        (\<lparr>i_fixation = (Fin (- 1), Fin (- 1)), i_target = (NaN, NaN),
            i_target_std = NaN, i_width = Fin 0.15, i_action = (Fin (- 0.4), Fin (- 0.2))\<rparr>,
         ext_example\<lparr>e_fixation := (Fin (- 0.4), Fin (- 0.2))\<rparr>,
         (NaN, NaN, NaN), NaN, True),
        (\<lparr>i_fixation = (Fin (- 1), Fin (- 1)), i_target = (NaN, NaN),
            i_target_std = NaN, i_width = Fin 0.15, i_action = (Fin (- 0.4), Fin (- 0.2))\<rparr>,
         ext_example\<lparr>e_fixation := (Fin (- 0.4), Fin (- 0.2))\<rparr>,
         (NaN, NaN, NaN), NaN, True)]"
    by (simp add: model_defs zero_noise_theory_def ext_example_def aim_at_target_def)
  have b: "\<not> fl_lt NaN (Fin 0)" by simp
  have c: "\<not> (\<exists>n outs out.
         run_steps zero_noise_theory (fst (reset_internal_env ext_example)) ext_example
           (replicate n aim_at_target) = Inr outs \<and>
         out \<in> set outs \<and> reward_of out = Fin 0)"
    using zero_noise_no_reward by fastforce
  from a b c show ?thesis by blast
qed

text \<open>
  C4, as the code has it.  With both noise weights zero and finite draws, the first call
  after a reset whose action is the true target (inside the range of the coordinates) puts
  the external fixation on the target, replaces the belief mean by the target and the
  uncertainty \<open>0.1\<close> by 0.  The distance between the internal fixation and the belief is
  then the distance from the corner \<open>(-1, -1)\<close> to the target, and the reward of the call is
  0 when that distance is below half the width and minus that distance otherwise.
\<close>

theorem zero_noise_first_step:
  assumes "oculamotor_noise_weight th = Fin 0" and "stimulus_noise_weight th = Fin 0"
    and "e_target ext = (Fin t1, Fin t2)"
    and "- 1 \<le> t1" "t1 \<le> 1" "- 1 \<le> t2" "t2 \<le> 1"
  shows "\<exists>dist.
           dist = sqrt ((t1 + 1)\<^sup>2 + (t2 + 1)\<^sup>2) \<and>
           get_distance (Fin (- 1), Fin (- 1)) (Fin t1, Fin t2) = Fin dist \<and>
           step th (fst (reset_internal_env ext)) ext (Fin t1, Fin t2) (Fin m1, Fin m2)
             (Fin p1, Fin p2) =
           Inr (\<lparr>i_fixation = (Fin (- 1), Fin (- 1)), i_target = (Fin t1, Fin t2),
                   i_target_std = Fin 0, i_width = e_width ext, i_action = (Fin t1, Fin t2)\<rparr>,
                ext\<lparr>e_fixation := (Fin t1, Fin t2)\<rparr>,
                (Fin t1, Fin t2, Fin 0),
                (if fl_lt (Fin dist) (fl_div (e_width ext) (Fin 2)) then Fin 0 else Fin (- dist)),
                fl_lt (Fin 0) (fl_div (e_width ext) (Fin 2)))"
proof -
  have sq: "(- 1 - t1) * (- 1 - t1) + (- 1 - t2) * (- 1 - t2) = (t1 + 1)\<^sup>2 + (t2 + 1)\<^sup>2"
    by (simp add: power2_eq_square algebra_simps)
  have d: "get_distance (Fin (- 1), Fin (- 1)) (Fin t1, Fin t2) =
             Fin (sqrt ((t1 + 1)\<^sup>2 + (t2 + 1)\<^sup>2))"
    unfolding get_distance_def fl_sq_def fl_sub_def by (simp add: sq)
  have c: "fl_clip (Fin t1) (- 1) 1 = Fin t1" "fl_clip (Fin t2) (- 1) 1 = Fin t2"
    using assms(4-7) by simp_all
  have r: "get_response th (update_state_with_action (fst (reset_internal_env ext)) (Fin t1, Fin t2))
             (Fin m1, Fin m2) = Inr (Fin t1, Fin t2)"
    using assms(1) c
    by (simp add: get_response_def update_state_with_action_def reset_internal_env_def d
        normal2_def vec_add_def vec_clip_def Let_def)
  have g: "get_stimulus th (ext\<lparr>e_fixation := (Fin t1, Fin t2)\<rparr>) (Fin p1, Fin p2) =
             Inr ((Fin t1, Fin t2), Fin 0)"
    using assms(2,3) by (simp add: get_stimulus_on_target)
  have u: "update_state_with_stimulus
             (update_state_with_action (fst (reset_internal_env ext)) (Fin t1, Fin t2))
             (Fin t1, Fin t2) (Fin 0) =
           \<lparr>i_fixation = (Fin (- 1), Fin (- 1)), i_target = (Fin t1, Fin t2),
              i_target_std = Fin 0, i_width = e_width ext, i_action = (Fin t1, Fin t2)\<rparr>"
    by (simp add: update_state_with_stimulus_def update_state_with_action_def
        reset_internal_env_def bayes_update_exact_stimulus Let_def)
  have e: "external_env ext (Fin t1, Fin t2) =
             (ext\<lparr>e_fixation := (Fin t1, Fin t2)\<rparr>, fl_lt (Fin 0) (fl_div (e_width ext) (Fin 2)))"
    using assms(3) by (simp add: external_env_def get_distance_self Let_def)
  have "step th (fst (reset_internal_env ext)) ext (Fin t1, Fin t2) (Fin m1, Fin m2)
             (Fin p1, Fin p2) =
           Inr (\<lparr>i_fixation = (Fin (- 1), Fin (- 1)), i_target = (Fin t1, Fin t2),
                   i_target_std = Fin 0, i_width = e_width ext, i_action = (Fin t1, Fin t2)\<rparr>,
                ext\<lparr>e_fixation := (Fin t1, Fin t2)\<rparr>,
                (Fin t1, Fin t2, Fin 0),
                (if fl_lt (Fin (sqrt ((t1 + 1)\<^sup>2 + (t2 + 1)\<^sup>2))) (fl_div (e_width ext) (Fin 2))
                 then Fin 0 else Fin (- sqrt ((t1 + 1)\<^sup>2 + (t2 + 1)\<^sup>2))),
                fl_lt (Fin 0) (fl_div (e_width ext) (Fin 2)))"
    unfolding step_def by (simp add: r e g u get_obs_def get_reward_def d Let_def)
  with d show ?thesis by blast
qed

text \<open>
  The target \<open>(-0.4, -0.2)\<close> again, now with draws that are not zero: the reward of the
  first call is \<open>-1\<close>, minus the distance from the corner to the target.
\<close>

theorem zero_noise_first_step_witness:
  "step zero_noise_theory (fst (reset_internal_env ext_example)) ext_example
     (Fin (- 0.4), Fin (- 0.2)) (Fin 1, Fin (- 1)) (Fin 2, Fin 3) =
   Inr (\<lparr>i_fixation = (Fin (- 1), Fin (- 1)), i_target = (Fin (- 0.4), Fin (- 0.2)),
           i_target_std = Fin 0, i_width = Fin 0.15, i_action = (Fin (- 0.4), Fin (- 0.2))\<rparr>,
        ext_example\<lparr>e_fixation := (Fin (- 0.4), Fin (- 0.2))\<rparr>,
        (Fin (- 0.4), Fin (- 0.2), Fin 0), Fin (- 1), True)"
proof -
  have w: "oculamotor_noise_weight zero_noise_theory = Fin 0"
    "stimulus_noise_weight zero_noise_theory = Fin 0"
    by (simp_all add: zero_noise_theory_def)
  have t: "e_target ext_example = (Fin (- 0.4), Fin (- 0.2))" by (simp add: ext_example_def)
  have b: "- 1 \<le> (- 0.4 :: real)" "(- 0.4 :: real) \<le> 1" "- 1 \<le> (- 0.2 :: real)"
    "(- 0.2 :: real) \<le> 1" by simp_all
  from zero_noise_first_step[OF w t b, of 1 "- 1" 2 3]
  show ?thesis by (simp add: ext_example_def power2_eq_square)
qed

section \<open>The range of the observations\<close>

text \<open>
  C9 says that every observation lies in the declared domain, its first two components in
  \<open>[-1, 1]\<close>.  The stimulus is not clipped, and neither is the belief: after a reset whose
  first draw is 4 (the target is clipped to \<open>(1, 0)\<close>), the call with the action
  \<open>(0.8, 0)\<close>, no motor noise and the stimulus draws \<open>(2, 0)\<close> returns an observation whose
  first component is \<open>2590 / 2581\<close>, above 1.
\<close>

theorem observation_leaves_declared_box:
  "\<exists>st0 ob0 st1 sd r d nfo.
     GazeModel_reset GazeModel_init (Fin 4, Fin 0) = Inr (st0, ob0) \<and>
     e_target (external st0) = (Fin 1, Fin 0) \<and>
     GazeModel_step GazeModel_init st0 (Fin 0.8, Fin 0) (Fin 0, Fin 0) (Fin 2, Fin 0) =
       Inr (st1, (Fin (2590 / 2581), Fin 0, sd), r, d, nfo) \<and>
     (1::real) < 2590 / 2581"
  by (auto simp: model_defs sqrt_one_twentyfifth)

end
